theory Spec2Isabelle
  imports Complex_Main "HOL-Library.Log_Nat"
begin

section \<open>JavaScript numbers\<close>

text \<open>
  Amounts and balances are JavaScript numbers, that is IEEE 754 double precision values.
  A number is a finite value, one of the two infinities or NaN; negative zero is not
  distinguished from zero. Every arithmetic operation computes the exact result and
  rounds it to the nearest double, ties to the even significand, as IEEE 754 prescribes.
  The finite values are written as real numbers; the statements below are proved for
  every real number in that place, so in particular for the doubles.
\<close>

datatype number = Finite real | PosInf | NegInf | NaN

text \<open>\<open>twoTo k\<close> is the power \<open>2\<^sup>k\<close>; \<open>exponent q\<close> is the binary exponent of a
  positive \<open>q\<close>, the \<open>e\<close> with \<open>2\<^sup>e \<le> q < 2\<^sup>e\<^sup>+\<^sup>1\<close>.\<close>

definition twoTo :: "int \<Rightarrow> real" where
  "twoTo k = (if 0 \<le> k then 2 ^ nat k else 1 / 2 ^ nat (- k))"

definition exponent :: "real \<Rightarrow> int" where
  "exponent q =
     (if 1 \<le> q then bitlen \<lfloor>q\<rfloor> - 1 else - bitlen (\<lceil>1 / q\<rceil> - 1))"

text \<open>The nearest integer, a tie going to the even one.\<close>

definition roundHalfEven :: "real \<Rightarrow> int" where
  "roundHalfEven m =
     (let n = \<lfloor>m\<rfloor>; r = m - of_int n
      in if r < 1 / 2 then n else if 1 / 2 < r then n + 1 else if even n then n else n + 1)"

text \<open>The distance between neighbouring doubles around a positive \<open>q\<close>: 52 binary
  places below the exponent, and \<open>2\<^sup>-\<^sup>1\<^sup>0\<^sup>7\<^sup>4\<close> in the subnormal range.\<close>

definition ulp :: "real \<Rightarrow> real" where
  "ulp q = twoTo (max (exponent q) (- 1022) - 52)"

definition roundMagnitude :: "real \<Rightarrow> real" where
  "roundMagnitude q = of_int (roundHalfEven (q / ulp q)) * ulp q"

text \<open>Rounding of an exact result to a double; a magnitude that rounds to \<open>2\<^sup>1\<^sup>0\<^sup>2\<^sup>4\<close> or
  more overflows to an infinity.\<close>

definition roundToDouble :: "real \<Rightarrow> number" where
  "roundToDouble q =
     (if q = 0 then Finite 0
      else if 0 < q
      then (if 2 ^ 1024 \<le> roundMagnitude q then PosInf else Finite (roundMagnitude q))
      else (if 2 ^ 1024 \<le> roundMagnitude (- q) then NegInf
            else Finite (- roundMagnitude (- q))))"

text \<open>A real number is a double when rounding leaves it as it is.\<close>

definition isDouble :: "real \<Rightarrow> bool" where
  "isDouble q = (roundToDouble q = Finite q)"

text \<open>The operators \<^verbatim>\<open>+\<close>, \<^verbatim>\<open>-\<close>, \<^verbatim>\<open>*\<close>, \<^verbatim>\<open>/\<close>, \<^verbatim>\<open><\<close> and \<^verbatim>\<open><=\<close> on numbers;
  \<^verbatim>\<open>a > b\<close> is \<open>jsLt b a\<close>. A comparison with NaN is false.\<close>

fun jsAdd :: "number \<Rightarrow> number \<Rightarrow> number" where
  "jsAdd (Finite a) (Finite b) = roundToDouble (a + b)"
| "jsAdd NaN y = NaN"
| "jsAdd x NaN = NaN"
| "jsAdd PosInf NegInf = NaN"
| "jsAdd NegInf PosInf = NaN"
| "jsAdd PosInf y = PosInf"
| "jsAdd x PosInf = PosInf"
| "jsAdd NegInf y = NegInf"
| "jsAdd x NegInf = NegInf"

fun jsNeg :: "number \<Rightarrow> number" where
  "jsNeg (Finite a) = Finite (- a)"
| "jsNeg PosInf = NegInf"
| "jsNeg NegInf = PosInf"
| "jsNeg NaN = NaN"

definition jsSub :: "number \<Rightarrow> number \<Rightarrow> number" where
  "jsSub x y = jsAdd x (jsNeg y)"

text \<open>The sign of a product or quotient with an infinite operand: \<open>signed True\<close> is
  the positive infinity.\<close>

definition signed :: "bool \<Rightarrow> number" where
  "signed positive = (if positive then PosInf else NegInf)"

fun jsMul :: "number \<Rightarrow> number \<Rightarrow> number" where
  "jsMul (Finite a) (Finite b) = roundToDouble (a * b)"
| "jsMul NaN y = NaN"
| "jsMul x NaN = NaN"
| "jsMul (Finite a) PosInf = (if a = 0 then NaN else signed (0 < a))"
| "jsMul (Finite a) NegInf = (if a = 0 then NaN else signed (a < 0))"
| "jsMul PosInf (Finite b) = (if b = 0 then NaN else signed (0 < b))"
| "jsMul NegInf (Finite b) = (if b = 0 then NaN else signed (b < 0))"
| "jsMul PosInf PosInf = PosInf"
| "jsMul PosInf NegInf = NegInf"
| "jsMul NegInf PosInf = NegInf"
| "jsMul NegInf NegInf = PosInf"

fun jsDiv :: "number \<Rightarrow> number \<Rightarrow> number" where
  "jsDiv (Finite a) (Finite b) =
     (if b = 0 then (if a = 0 then NaN else signed (0 < a)) else roundToDouble (a / b))"
| "jsDiv NaN y = NaN"
| "jsDiv x NaN = NaN"
| "jsDiv (Finite a) PosInf = Finite 0"
| "jsDiv (Finite a) NegInf = Finite 0"
| "jsDiv PosInf (Finite b) = signed (0 \<le> b)"
| "jsDiv NegInf (Finite b) = signed (b < 0)"
| "jsDiv PosInf PosInf = NaN"
| "jsDiv PosInf NegInf = NaN"
| "jsDiv NegInf PosInf = NaN"
| "jsDiv NegInf NegInf = NaN"

fun jsLt :: "number \<Rightarrow> number \<Rightarrow> bool" where
  "jsLt (Finite a) (Finite b) = (a < b)"
| "jsLt NaN y = False"
| "jsLt x NaN = False"
| "jsLt PosInf y = False"
| "jsLt x NegInf = False"
| "jsLt x PosInf = True"
| "jsLt NegInf y = True"

fun jsLe :: "number \<Rightarrow> number \<Rightarrow> bool" where
  "jsLe (Finite a) (Finite b) = (a \<le> b)"
| "jsLe NaN y = False"
| "jsLe x NaN = False"
| "jsLe x PosInf = True"
| "jsLe NegInf y = True"
| "jsLe PosInf y = False"
| "jsLe x NegInf = False"

section \<open>Data model\<close>

text \<open>
  The three collections of the wallet service. Identifiers (ObjectId) are natural
  numbers, timestamps are milliseconds since the epoch. The request field \<^verbatim>\<open>amount\<close>
  is a JSON number, as the API documents it, or absent; it reaches the handler as a
  finite double. A request whose \<^verbatim>\<open>amount\<close> is not a number (a string, say, which
  \<^verbatim>\<open>+=\<close> would concatenate) or is a literal beyond the range of doubles is outside this
  model.
\<close>

datatype txType = DEPOSIT | WITHDRAWAL | TRANSFER

text \<open>models/Transaction.js: \<^verbatim>\<open>transactionSchema\<close>, with \<^verbatim>\<open>timestamps: true\<close> giving
  \<^verbatim>\<open>createdAt\<close>. The field \<^verbatim>\<open>type\<close> is called \<open>type'\<close>.\<close>

record transaction =
  fromUserId :: "nat option"
  toUserId :: "nat option"
  amount :: number
  type' :: txType
  currency :: string
  isFlagged :: bool
  flagReason :: "string option"
  isDeleted :: bool
  createdAt :: int

text \<open>Modelled from the spec: the Wallet schema (models/Wallet.js) is not part of the
  sources; the routes read and write the fields \<^verbatim>\<open>userId\<close>, \<^verbatim>\<open>balance\<close> and
  \<^verbatim>\<open>currency\<close> of a wallet document (here \<open>walletCurrency\<close>).\<close>

record wallet =
  userId :: nat
  balance :: number
  walletCurrency :: string

text \<open>Modelled from the spec: the User schema (models/User.js) is not part of the
  sources; the routes use \<^verbatim>\<open>_id\<close>, \<^verbatim>\<open>email\<close> and \<^verbatim>\<open>isDeleted\<close> of a user
  document (here \<open>uid\<close>, \<open>email\<close>, \<open>userIsDeleted\<close>).\<close>

record user =
  uid :: nat
  email :: string
  userIsDeleted :: bool

text \<open>The committed contents of the database: each collection is the list of its
  documents, in insertion order.\<close>

record db =
  users :: "user list"
  wallets :: "wallet list"
  transactions :: "transaction list"

section \<open>Storage operations and their failures\<close>

text \<open>
  Every awaited database call of a handler sits inside \<^verbatim>\<open>try { ... } catch (error)\<close>.
  A call that throws is modelled by a fault assignment: for each kind of storage
  operation, the message of the error it throws when executed, if any. Failures of
  \<^verbatim>\<open>startSession\<close>, \<^verbatim>\<open>abortTransaction\<close> and \<^verbatim>\<open>endSession\<close> themselves are not
  modelled, and one request is handled at a time.

  The handlers open a MongoDB transaction on a session. Writes made with the session
  (\<^verbatim>\<open>save({ session })\<close>, \<^verbatim>\<open>create(..., { session })\<close>) become part of the committed
  database at \<^verbatim>\<open>commitTransaction\<close> and are discarded by \<^verbatim>\<open>abortTransaction\<close>; until
  the commit they are visible only to reads made with the same session.
\<close>

datatype storageOp =
  UserFindOne | WalletFindOne | WalletSave | TransactionCreate
| TransactionFind | TransactionSave | CommitTransaction

type_synonym faults = "storageOp \<Rightarrow> string option"

definition noFaults :: faults where
  "noFaults = (\<lambda>_. None)"

text \<open>\<^verbatim>\<open>Wallet.findOne({ userId })\<close>: the first wallet document of that user, or null.\<close>

definition findWallet :: "nat \<Rightarrow> wallet list \<Rightarrow> wallet option" where
  "findWallet u ws = find (\<lambda>w. userId w = u) ws"

text \<open>\<^verbatim>\<open>wallet.save()\<close> for a document obtained by \<open>findWallet\<close>: the stored document
  it was read from (the first one of that user) is replaced.\<close>

fun saveWallet :: "wallet \<Rightarrow> wallet list \<Rightarrow> wallet list" where
  "saveWallet w [] = []"
| "saveWallet w (x # xs) = (if userId x = userId w then w # xs else x # saveWallet w xs)"

text \<open>\<^verbatim>\<open>User.findOne({ email: toEmail, isDeleted: false })\<close>.\<close>

definition findRecipient :: "string \<Rightarrow> user list \<Rightarrow> user option" where
  "findRecipient e us = find (\<lambda>u. email u = e \<and> \<not> userIsDeleted u) us"

section \<open>utils/fraudDetection.js\<close>

definition recentTransfers :: "int \<Rightarrow> nat \<Rightarrow> transaction list \<Rightarrow> transaction list" where
  "recentTransfers now u ts =
     (let oneHourAgo = now - 60 * 60 * 1000
      in filter (\<lambda>t. fromUserId t = Some u \<and> type' t = TRANSFER \<and> createdAt t \<ge> oneHourAgo) ts)"

definition recentTransactions :: "int \<Rightarrow> nat \<Rightarrow> transaction list \<Rightarrow> transaction list" where
  "recentTransactions now u ts =
     (let pastMonth = now - 30 * 24 * 60 * 60 * 1000
      in filter (\<lambda>t. (fromUserId t = Some u \<or> toUserId t = Some u) \<and> createdAt t \<ge> pastMonth) ts)"

text \<open>\<^verbatim>\<open>recentTransactions.reduce((sum, t) => sum + t.amount, 0) / recentTransactions.length\<close>:
  each addition of the running sum and the division are operations on doubles.\<close>

definition avgAmount :: "transaction list \<Rightarrow> number" where
  "avgAmount ts =
     jsDiv (foldl (\<lambda>sum t. jsAdd sum (amount t)) (Finite 0) ts) (Finite (of_nat (length ts)))"

text \<open>
  \<open>detectFraud f now1 now2 ledger userId transaction\<close>. The function receives no
  session and its two \<^verbatim>\<open>Transaction.find\<close> queries are issued without one, so they
  read the committed collection \<open>ledger\<close>; \<open>now1\<close> and \<open>now2\<close> are the two
  readings of \<^verbatim>\<open>Date.now()\<close>. The result is \<open>Inl\<close> of the message when a query
  throws, otherwise \<open>Inr\<close> of the reason or \<open>None\<close> for null. The function is
  written in three parts: \<open>detectFraud\<close> is the velocity check (source lines 17 to
  29), \<open>detectFraudRest\<close> the check for a large withdrawal (lines 31 to 34) and
  \<open>detectFraudOutlier\<close> the comparison with the average (lines 36 to 53).
\<close>

definition detectFraudOutlier :: "faults \<Rightarrow> int \<Rightarrow> transaction list \<Rightarrow> nat \<Rightarrow> transaction
    \<Rightarrow> string + string option" where
  "detectFraudOutlier f now2 ledger u tx =
     (case f TransactionFind of
        Some err \<Rightarrow> Inl err
      | None \<Rightarrow>
          (let recent = recentTransactions now2 u ledger
           in if length recent > 0 \<and> jsLt (jsMul (avgAmount recent) (Finite 3)) (amount tx)
              then Inr (Some ''Transaction amount significantly higher than average'')
              else Inr None))"

definition detectFraudRest :: "faults \<Rightarrow> int \<Rightarrow> transaction list \<Rightarrow> nat \<Rightarrow> transaction
    \<Rightarrow> string + string option" where
  "detectFraudRest f now2 ledger u tx =
     (if type' tx = WITHDRAWAL \<and> jsLt (Finite 1000) (amount tx)
      then Inr (Some ''Large withdrawal'')
      else detectFraudOutlier f now2 ledger u tx)"

definition detectFraud :: "faults \<Rightarrow> int \<Rightarrow> int \<Rightarrow> transaction list \<Rightarrow> nat \<Rightarrow> transaction
    \<Rightarrow> string + string option" where
  "detectFraud f now1 now2 ledger u tx =
     (if type' tx = TRANSFER
      then (case f TransactionFind of
              Some err \<Rightarrow> Inl err
            | None \<Rightarrow>
                if length (recentTransfers now1 u ledger) \<ge> 5
                then Inr (Some ''Multiple transfers in a short period'')
                else detectFraudRest f now2 ledger u tx)
      else detectFraudRest f now2 ledger u tx)"

section \<open>routes/wallet.js\<close>

text \<open>A response is either an error status with its message, or status 200 with the
  message, the balance and the transaction document.\<close>

datatype response =
  Failure nat string
| Success string number transaction

text \<open>\<^verbatim>\<open>transaction[0].isFlagged = true; transaction[0].flagReason = isFraudulent\<close>\<close>

definition setFlag :: "string \<Rightarrow> transaction \<Rightarrow> transaction" where
  "setFlag reason tx = tx\<lparr>isFlagged := True, flagReason := Some reason\<rparr>"

text \<open>
  \<^verbatim>\<open>session.commitTransaction()\<close> followed by the 200 response. \<open>d\<close> is the
  committed database, \<open>ws\<close> the wallet collection as written in the session and
  \<open>tx\<close> the transaction document of the session. \<open>Inl\<close> is a thrown error.
\<close>

definition commitAndRespond :: "faults \<Rightarrow> db \<Rightarrow> wallet list \<Rightarrow> transaction \<Rightarrow> string \<Rightarrow> number
    \<Rightarrow> string + (response \<times> db)" where
  "commitAndRespond f d ws tx msg bal =
     (case f CommitTransaction of
        Some err \<Rightarrow> Inl err
      | None \<Rightarrow> Inr (Success msg bal tx, d\<lparr>wallets := ws, transactions := transactions d @ [tx]\<rparr>))"

text \<open>
  The common tail of the three handlers (source lines 140 to 153, 217 to 230 and 314 to
  327): \<^verbatim>\<open>detectFraud\<close>, the flag write in the session, then the commit. All of it is
  inside the \<^verbatim>\<open>try\<close> block and before \<^verbatim>\<open>commitTransaction\<close>; \<open>detectFraud\<close> is
  given the committed ledger \<open>transactions d\<close>, which does not yet hold \<open>tx\<close>.
\<close>

definition flagAndCommit :: "faults \<Rightarrow> int \<Rightarrow> int \<Rightarrow> db \<Rightarrow> wallet list \<Rightarrow> nat \<Rightarrow> transaction
    \<Rightarrow> string \<Rightarrow> number \<Rightarrow> string + (response \<times> db)" where
  "flagAndCommit f now1 now2 d ws u tx msg bal =
     (case detectFraud f now1 now2 (transactions d) u tx of
        Inl err \<Rightarrow> Inl err
      | Inr None \<Rightarrow> commitAndRespond f d ws tx msg bal
      | Inr (Some isFraudulent) \<Rightarrow>
          (case f TransactionSave of
             Some err \<Rightarrow> Inl err
           | None \<Rightarrow> commitAndRespond f d ws (setFlag isFraudulent tx) msg bal))"

text \<open>\<^verbatim>\<open>Transaction.create([{ ... }], { session })\<close>: the request amount \<open>a\<close> is
  stored as it is, the schema defaults and the creation timestamp \<open>tc\<close> are filled
  in.\<close>

definition newTransaction :: "int \<Rightarrow> nat option \<Rightarrow> nat option \<Rightarrow> real \<Rightarrow> txType \<Rightarrow> string
    \<Rightarrow> transaction" where
  "newTransaction tc from to a ty cur =
     \<lparr>fromUserId = from, toUserId = to, amount = Finite a, type' = ty, currency = cur,
      isFlagged = False, flagReason = None, isDeleted = False, createdAt = tc\<rparr>"

text \<open>The body of the \<^verbatim>\<open>try\<close> block of \<^verbatim>\<open>router.post('/deposit')\<close>. The request
  amount is \<open>None\<close> when the body has no amount.\<close>

definition depositTry :: "faults \<Rightarrow> int \<Rightarrow> int \<Rightarrow> int \<Rightarrow> nat \<Rightarrow> real option \<Rightarrow> db
    \<Rightarrow> string + (response \<times> db)" where
  "depositTry f tc now1 now2 u amt d =
     (case amt of
        None \<Rightarrow> Inr (Failure 400 ''Valid amount is required'', d)
      | Some a \<Rightarrow>
          if a = 0 \<or> a \<le> 0 then Inr (Failure 400 ''Valid amount is required'', d)
          else
            (case f WalletFindOne of
               Some err \<Rightarrow> Inl err
             | None \<Rightarrow>
                 (case findWallet u (wallets d) of
                    None \<Rightarrow> Inr (Failure 404 ''Wallet not found'', d)
                  | Some w \<Rightarrow>
                      (let w' = w\<lparr>balance := jsAdd (balance w) (Finite a)\<rparr>
                       in case f WalletSave of
                            Some err \<Rightarrow> Inl err
                          | None \<Rightarrow>
                              (case f TransactionCreate of
                                 Some err \<Rightarrow> Inl err
                               | None \<Rightarrow>
                                   flagAndCommit f now1 now2 d (saveWallet w' (wallets d)) u
                                     (newTransaction tc None (Some u) a DEPOSIT (walletCurrency w))
                                     ''Deposit successful'' (balance w'))))))"

text \<open>The handler: the \<^verbatim>\<open>catch\<close> block aborts the session, so the committed database
  is unchanged, and answers 500 with the error's message.\<close>

definition deposit :: "faults \<Rightarrow> int \<Rightarrow> int \<Rightarrow> int \<Rightarrow> nat \<Rightarrow> real option \<Rightarrow> db \<Rightarrow> response \<times> db" where
  "deposit f tc now1 now2 u amt d =
     (case depositTry f tc now1 now2 u amt d of
        Inl err \<Rightarrow> (Failure 500 err, d)
      | Inr r \<Rightarrow> r)"

definition withdrawTry :: "faults \<Rightarrow> int \<Rightarrow> int \<Rightarrow> int \<Rightarrow> nat \<Rightarrow> real option \<Rightarrow> db
    \<Rightarrow> string + (response \<times> db)" where
  "withdrawTry f tc now1 now2 u amt d =
     (case amt of
        None \<Rightarrow> Inr (Failure 400 ''Valid amount is required'', d)
      | Some a \<Rightarrow>
          if a = 0 \<or> a \<le> 0 then Inr (Failure 400 ''Valid amount is required'', d)
          else
            (case f WalletFindOne of
               Some err \<Rightarrow> Inl err
             | None \<Rightarrow>
                 (case findWallet u (wallets d) of
                    None \<Rightarrow> Inr (Failure 404 ''Wallet not found'', d)
                  | Some w \<Rightarrow>
                      if jsLt (balance w) (Finite a) then Inr (Failure 400 ''Insufficient funds'', d)
                      else
                        (let w' = w\<lparr>balance := jsSub (balance w) (Finite a)\<rparr>
                         in case f WalletSave of
                              Some err \<Rightarrow> Inl err
                            | None \<Rightarrow>
                                (case f TransactionCreate of
                                   Some err \<Rightarrow> Inl err
                                 | None \<Rightarrow>
                                     flagAndCommit f now1 now2 d (saveWallet w' (wallets d)) u
                                       (newTransaction tc (Some u) None a WITHDRAWAL (walletCurrency w))
                                       ''Withdrawal successful'' (balance w'))))))"

definition withdraw :: "faults \<Rightarrow> int \<Rightarrow> int \<Rightarrow> int \<Rightarrow> nat \<Rightarrow> real option \<Rightarrow> db \<Rightarrow> response \<times> db" where
  "withdraw f tc now1 now2 u amt d =
     (case withdrawTry f tc now1 now2 u amt d of
        Inl err \<Rightarrow> (Failure 500 err, d)
      | Inr r \<Rightarrow> r)"

text \<open>The part of \<^verbatim>\<open>router.post('/transfer')\<close> after the recipient and the sender's
  wallet have been resolved (source lines 294 to 327).\<close>

definition transferWallets :: "faults \<Rightarrow> int \<Rightarrow> int \<Rightarrow> int \<Rightarrow> nat \<Rightarrow> user \<Rightarrow> real \<Rightarrow> wallet \<Rightarrow> db
    \<Rightarrow> string + (response \<times> db)" where
  "transferWallets f tc now1 now2 u recipient a senderWallet d =
     (case f WalletFindOne of
        Some err \<Rightarrow> Inl err
      | None \<Rightarrow>
          (case findWallet (uid recipient) (wallets d) of
             None \<Rightarrow> Inr (Failure 404 ''Recipient wallet not found'', d)
           | Some recipientWallet \<Rightarrow>
               (let senderWallet' = senderWallet\<lparr>balance := jsSub (balance senderWallet) (Finite a)\<rparr>;
                    recipientWallet' =
                      recipientWallet\<lparr>balance := jsAdd (balance recipientWallet) (Finite a)\<rparr>
                in case f WalletSave of
                     Some err \<Rightarrow> Inl err
                   | None \<Rightarrow>
                       (case f TransactionCreate of
                          Some err \<Rightarrow> Inl err
                        | None \<Rightarrow>
                            flagAndCommit f now1 now2 d
                              (saveWallet recipientWallet' (saveWallet senderWallet' (wallets d))) u
                              (newTransaction tc (Some u) (Some (uid recipient)) a TRANSFER
                                 (walletCurrency senderWallet))
                              ''Transfer successful'' (balance senderWallet')))))"

text \<open>The part after the request has passed
  \<^verbatim>\<open>!toEmail || !amount || amount <= 0\<close> (source lines 277 to 292).\<close>

definition transferRecipient :: "faults \<Rightarrow> int \<Rightarrow> int \<Rightarrow> int \<Rightarrow> nat \<Rightarrow> string \<Rightarrow> real \<Rightarrow> db
    \<Rightarrow> string + (response \<times> db)" where
  "transferRecipient f tc now1 now2 u e a d =
     (case f UserFindOne of
        Some err \<Rightarrow> Inl err
      | None \<Rightarrow>
          (case findRecipient e (users d) of
             None \<Rightarrow> Inr (Failure 404 ''Recipient not found'', d)
           | Some recipient \<Rightarrow>
               if uid recipient = u
               then Inr (Failure 400 ''Cannot transfer to your own account'', d)
               else
                 (case f WalletFindOne of
                    Some err \<Rightarrow> Inl err
                  | None \<Rightarrow>
                      (case findWallet u (wallets d) of
                         None \<Rightarrow> Inr (Failure 400 ''Insufficient funds'', d)
                       | Some senderWallet \<Rightarrow>
                           if jsLt (balance senderWallet) (Finite a)
                           then Inr (Failure 400 ''Insufficient funds'', d)
                           else transferWallets f tc now1 now2 u recipient a senderWallet d))))"

text \<open>The body of the \<^verbatim>\<open>try\<close> block of \<^verbatim>\<open>router.post('/transfer')\<close>:
  \<^verbatim>\<open>!toEmail\<close> holds for a missing or empty email, \<^verbatim>\<open>!amount\<close> for a missing
  or zero amount.\<close>

definition transferTry :: "faults \<Rightarrow> int \<Rightarrow> int \<Rightarrow> int \<Rightarrow> nat \<Rightarrow> string option \<Rightarrow> real option \<Rightarrow> db
    \<Rightarrow> string + (response \<times> db)" where
  "transferTry f tc now1 now2 u toEmail amt d =
     (case toEmail of
        None \<Rightarrow> Inr (Failure 400 ''Valid recipient email and amount are required'', d)
      | Some e \<Rightarrow>
          if e = [] then Inr (Failure 400 ''Valid recipient email and amount are required'', d)
          else
            (case amt of
               None \<Rightarrow> Inr (Failure 400 ''Valid recipient email and amount are required'', d)
             | Some a \<Rightarrow>
                 if a = 0 \<or> a \<le> 0
                 then Inr (Failure 400 ''Valid recipient email and amount are required'', d)
                 else transferRecipient f tc now1 now2 u e a d))"

definition transfer :: "faults \<Rightarrow> int \<Rightarrow> int \<Rightarrow> int \<Rightarrow> nat \<Rightarrow> string option \<Rightarrow> real option \<Rightarrow> db
    \<Rightarrow> response \<times> db" where
  "transfer f tc now1 now2 u toEmail amt d =
     (case transferTry f tc now1 now2 u toEmail amt d of
        Inl err \<Rightarrow> (Failure 500 err, d)
      | Inr r \<Rightarrow> r)"

text \<open>The balance of a user as \<^verbatim>\<open>GET /balance\<close> reads it.\<close>

definition balanceOf :: "nat \<Rightarrow> db \<Rightarrow> number option" where
  "balanceOf u d = map_option balance (findWallet u (wallets d))"

section \<open>Predicates and reference definitions used in the statements\<close>

text \<open>A request amount that is missing, zero or negative.\<close>

definition invalidAmount :: "real option \<Rightarrow> bool" where
  "invalidAmount amt = (case amt of None \<Rightarrow> True | Some a \<Rightarrow> a \<le> 0)"

text \<open>Every stored wallet has a balance of at least zero.\<close>

definition nonNegative :: "db \<Rightarrow> bool" where
  "nonNegative d = list_all (\<lambda>w. jsLe (Finite 0) (balance w)) (wallets d)"

text \<open>
  The classifier in the words of section 4.3 of the specification: three rules, tried in
  order, the first one that gives a reason wins. The mean and its triple are computed as
  the program computes them, in doubles: \<open>jsSum\<close> adds from the left, starting from 0.
\<close>

definition velocityRule :: "int \<Rightarrow> nat \<Rightarrow> transaction list \<Rightarrow> transaction \<Rightarrow> string option" where
  "velocityRule now actorId ledger tx =
     (if type' tx = TRANSFER
         \<and> 5 \<le> length [t \<leftarrow> ledger. fromUserId t = Some actorId \<and> type' t = TRANSFER
                                   \<and> now - 3600000 \<le> createdAt t]
      then Some ''Multiple transfers in a short period'' else None)"

definition largeWithdrawalRule :: "transaction \<Rightarrow> string option" where
  "largeWithdrawalRule tx =
     (if type' tx = WITHDRAWAL \<and> jsLt (Finite 1000) (amount tx)
      then Some ''Large withdrawal'' else None)"

fun jsSum :: "number \<Rightarrow> number list \<Rightarrow> number" where
  "jsSum acc [] = acc"
| "jsSum acc (x # xs) = jsSum (jsAdd acc x) xs"

definition jsMean :: "number list \<Rightarrow> number" where
  "jsMean xs = jsDiv (jsSum (Finite 0) xs) (Finite (of_nat (length xs)))"

definition touching :: "int \<Rightarrow> nat \<Rightarrow> transaction list \<Rightarrow> transaction list" where
  "touching now actorId ledger =
     [t \<leftarrow> ledger. (fromUserId t = Some actorId \<or> toUserId t = Some actorId)
                    \<and> now - 2592000000 \<le> createdAt t]"

definition outlierRule :: "int \<Rightarrow> nat \<Rightarrow> transaction list \<Rightarrow> transaction \<Rightarrow> string option" where
  "outlierRule now actorId ledger tx =
     (if touching now actorId ledger = [] then None
      else if jsLt (jsMul (jsMean (map amount (touching now actorId ledger))) (Finite 3))
                (amount tx)
      then Some ''Transaction amount significantly higher than average''
      else None)"

fun firstMatch :: "string option list \<Rightarrow> string option" where
  "firstMatch [] = None"
| "firstMatch (Some reason # rules) = Some reason"
| "firstMatch (None # rules) = firstMatch rules"

definition classify :: "int \<Rightarrow> int \<Rightarrow> nat \<Rightarrow> transaction list \<Rightarrow> transaction \<Rightarrow> string option" where
  "classify now1 now2 actorId ledger tx =
     firstMatch [velocityRule now1 actorId ledger tx, largeWithdrawalRule tx,
                 outlierRule now2 actorId ledger tx]"

text \<open>The exact arithmetic mean of finite amounts, for comparison.\<close>

definition exactMean :: "real list \<Rightarrow> real" where
  "exactMean xs = sum_list xs / of_nat (length xs)"

text \<open>A transaction as it was before the flag was written.\<close>

definition unflagged :: "transaction \<Rightarrow> transaction" where
  "unflagged tx = tx\<lparr>isFlagged := False, flagReason := None\<rparr>"

section \<open>Example data\<close>

text \<open>Three users; the first two have wallets, in different currencies, the third has
  none. The ledger is empty.\<close>

definition exampleDb :: db where
  "exampleDb =
     \<lparr>users = [\<lparr>uid = 1, email = ''a@x'', userIsDeleted = False\<rparr>,
               \<lparr>uid = 2, email = ''b@x'', userIsDeleted = False\<rparr>,
               \<lparr>uid = 3, email = ''c@x'', userIsDeleted = False\<rparr>],
      wallets = [\<lparr>userId = 1, balance = Finite 2000, walletCurrency = ''USD''\<rparr>,
                 \<lparr>userId = 2, balance = Finite 50, walletCurrency = ''EUR''\<rparr>],
      transactions = []\<rparr>"

text \<open>The same users; the first wallet holds 2 and the second \<open>2\<^sup>5\<^sup>3\<close>, the least
  positive double whose successor is 2 away.\<close>

definition largeDb :: db where
  "largeDb =
     \<lparr>users = [\<lparr>uid = 1, email = ''a@x'', userIsDeleted = False\<rparr>,
               \<lparr>uid = 2, email = ''b@x'', userIsDeleted = False\<rparr>,
               \<lparr>uid = 3, email = ''c@x'', userIsDeleted = False\<rparr>],
      wallets = [\<lparr>userId = 1, balance = Finite 2, walletCurrency = ''USD''\<rparr>,
                 \<lparr>userId = 2, balance = Finite 9007199254740992, walletCurrency = ''EUR''\<rparr>],
      transactions = []\<rparr>"

text \<open>The database after \<open>n\<close> transfers of 10 from user 1 to user 2, one per
  millisecond, starting from \<open>exampleDb\<close>.\<close>

fun afterTransfers :: "nat \<Rightarrow> db" where
  "afterTransfers 0 = exampleDb"
| "afterTransfers (Suc n) =
     snd (transfer noFaults (int n) (int n) (int n) 1 (Some ''b@x'') (Some 10) (afterTransfers n))"

text \<open>The flag write, and nothing else, fails.\<close>

definition flagWriteFails :: "string \<Rightarrow> faults" where
  "flagWriteFails err = noFaults(TransactionSave := Some err)"

text \<open>The doubles nearest to 0.1 and nearest to 0.30000000000000004.\<close>

definition tenth :: real where
  "tenth = 3602879701896397 / 36028797018963968"

definition threeTenthsUp :: real where
  "threeTenthsUp = 5404319552844596 / 18014398509481984"

section \<open>Facts about rounding\<close>

text \<open>The exponent brackets its argument, the rounded magnitude is a multiple of the
  spacing within half a spacing of the exact value, and rounding keeps the sign.\<close>

lemma twoTo_pos: "0 < twoTo k"
  by (simp add: twoTo_def)

lemma bitlen_ge1: "0 < x \<Longrightarrow> 1 \<le> bitlen x"
  using bitlen_eq_zero_iff [of x] bitlen_nonneg [of x] by linarith

lemma exponent_bounds:
  assumes "0 < q"
  shows "twoTo (exponent q) \<le> q \<and> q < twoTo (exponent q + 1)"
proof (cases "1 \<le> q")
  case True
  let ?n = "\<lfloor>q\<rfloor>"
  have n: "0 < ?n" using True by linarith
  have b1: "1 \<le> bitlen ?n" using n by (rule bitlen_ge1)
  from bitlen_bounds [OF n] have lo: "2 ^ nat (bitlen ?n - 1) \<le> ?n"
    and hi: "?n < 2 ^ nat (bitlen ?n)" by auto
  have 1: "(2::real) ^ nat (bitlen ?n - 1) \<le> q"
    using lo by (simp add: le_floor_iff)
  have 2: "q < (2::real) ^ nat (bitlen ?n)"
    using hi by (simp add: floor_less_iff)
  show ?thesis
    using True b1 1 2 by (simp add: exponent_def twoTo_def)
next
  case False
  let ?x = "1 / q"
  let ?m = "\<lceil>?x\<rceil> - 1"
  have x: "1 < ?x" using assms False by simp
  have m: "0 < ?m" using x by linarith
  have b1: "1 \<le> bitlen ?m" using m by (rule bitlen_ge1)
  from bitlen_bounds [OF m] have lo: "2 ^ nat (bitlen ?m - 1) \<le> ?m"
    and hi: "?m < 2 ^ nat (bitlen ?m)" by auto
  have "\<lceil>?x\<rceil> \<le> 2 ^ nat (bitlen ?m)" using hi by simp
  then have "?x \<le> (2::real) ^ nat (bitlen ?m)"
    by (simp add: ceiling_le_iff)
  then have 1: "1 / 2 ^ nat (bitlen ?m) \<le> q"
    using assms by (simp add: field_simps)
  have "2 ^ nat (bitlen ?m - 1) < \<lceil>?x\<rceil>" using lo by simp
  then have "(2::real) ^ nat (bitlen ?m - 1) < ?x"
    by (simp add: less_ceiling_iff)
  then have 2: "q < 1 / 2 ^ nat (bitlen ?m - 1)"
    using assms by (simp add: field_simps)
  show ?thesis
  proof (cases "bitlen ?m = 1")
    case True
    then show ?thesis
      using False 1 assms by (simp add: exponent_def twoTo_def)
  next
    case b: False
    then have "\<not> 0 \<le> - bitlen ?m + 1" "\<not> 0 \<le> - bitlen ?m"
      "nat (- (- bitlen ?m + 1)) = nat (bitlen ?m - 1)"
      using b1 by simp_all
    then show ?thesis
      using False 1 2 by (simp add: exponent_def twoTo_def)
  qed
qed

lemma roundHalfEven_nonneg: "0 \<le> m \<Longrightarrow> 0 \<le> roundHalfEven m"
  by (simp add: roundHalfEven_def Let_def)

lemma roundHalfEven_near: "\<bar>real_of_int (roundHalfEven m) - m\<bar> \<le> 1 / 2"
  by (simp add: roundHalfEven_def Let_def)

lemma ulp_pos: "0 < ulp q"
  by (simp add: ulp_def twoTo_pos)

lemma roundMagnitude_nonneg: "0 \<le> q \<Longrightarrow> 0 \<le> roundMagnitude q"
  using ulp_pos [of q] by (simp add: roundMagnitude_def roundHalfEven_nonneg)

lemma roundMagnitude_near: "\<bar>roundMagnitude q - q\<bar> \<le> ulp q / 2"
proof -
  have "\<bar>real_of_int (roundHalfEven (q / ulp q)) - q / ulp q\<bar> * ulp q \<le> 1 / 2 * ulp q"
    using roundHalfEven_near [of "q / ulp q"] ulp_pos [of q]
    by (intro mult_right_mono) simp_all
  moreover have "\<bar>real_of_int (roundHalfEven (q / ulp q)) - q / ulp q\<bar> * ulp q
      = \<bar>roundMagnitude q - q\<bar>"
    using ulp_pos [of q]
    by (simp add: roundMagnitude_def abs_mult_pos left_diff_distrib)
  ultimately show ?thesis by simp
qed

lemma roundToDouble_zero: "roundToDouble 0 = Finite 0"
  by (simp add: roundToDouble_def)

lemma roundToDouble_nonneg: "0 \<le> q \<Longrightarrow> jsLe (Finite 0) (roundToDouble q)"
  using roundMagnitude_nonneg [of q] by (simp add: roundToDouble_def)

lemma jsAdd_nonneg:
  "jsLe (Finite 0) b \<Longrightarrow> 0 \<le> a \<Longrightarrow> jsLe (Finite 0) (jsAdd b (Finite a))"
  by (cases b) (simp_all add: roundToDouble_nonneg)

lemma jsSub_nonneg:
  "\<not> jsLt b (Finite a) \<Longrightarrow> jsLe (Finite 0) b \<Longrightarrow> jsLe (Finite 0) (jsSub b (Finite a))"
  by (cases b) (simp_all add: jsSub_def roundToDouble_nonneg)

lemma jsLe_not_jsLt: "jsLe (Finite a) b \<Longrightarrow> \<not> jsLt b (Finite a)"
  by (cases b) simp_all

lemma jsSub_Finite: "jsSub (Finite b) (Finite a) = roundToDouble (b - a)"
  by (simp add: jsSub_def)

text \<open>With a finite amount the balance written by a handler is NaN only if the balance
  read was NaN; a stored balance never is.\<close>

lemma roundToDouble_not_NaN: "roundToDouble q \<noteq> NaN"
  by (simp add: roundToDouble_def)

lemma jsAdd_not_NaN: "b \<noteq> NaN \<Longrightarrow> jsAdd b (Finite a) \<noteq> NaN"
  by (cases b) (simp_all add: roundToDouble_not_NaN)

lemma jsSub_not_NaN: "b \<noteq> NaN \<Longrightarrow> jsSub b (Finite a) \<noteq> NaN"
  by (cases b) (simp_all add: jsSub_def roundToDouble_not_NaN)

text \<open>The definitions that evaluate rounding on numerals.\<close>

lemmas round_defs =
  roundToDouble_def roundMagnitude_def ulp_def exponent_def roundHalfEven_def
  compute_bitlen twoTo_def Let_def

lemma isDouble_examples:
  "isDouble 1990" "isDouble 60" "isDouble 500" "isDouble 0" "isDouble 1"
  "isDouble 9007199254740992"
  by (simp_all add: isDouble_def round_defs)

section \<open>Facts about the storage operations\<close>

lemma findWallet_userId: "findWallet u ws = Some w \<Longrightarrow> userId w = u"
  by (auto simp: findWallet_def find_Some_iff)

lemma findWallet_mem: "findWallet u ws = Some w \<Longrightarrow> w \<in> set ws"
  by (auto simp: findWallet_def find_Some_iff)

lemma findWallet_save_same:
  "findWallet (userId w) ws = Some w0 \<Longrightarrow> findWallet (userId w) (saveWallet w ws) = Some w"
  by (induction ws) (auto simp: findWallet_def split: if_splits)

lemma findWallet_save_other:
  "userId w \<noteq> u \<Longrightarrow> findWallet u (saveWallet w ws) = findWallet u ws"
  by (induction ws) (auto simp: findWallet_def)

lemma set_saveWallet: "set (saveWallet w ws) \<subseteq> insert w (set ws)"
  by (induction ws) auto

lemma findWallet_after_transfer:
  assumes "findWallet u ws = Some wx" and "findWallet v ws = Some wy" and "u \<noteq> v"
  shows "findWallet u (saveWallet (wy\<lparr>balance := b2\<rparr>) (saveWallet (wx\<lparr>balance := b1\<rparr>) ws))
           = Some (wx\<lparr>balance := b1\<rparr>)"
    and "findWallet v (saveWallet (wy\<lparr>balance := b2\<rparr>) (saveWallet (wx\<lparr>balance := b1\<rparr>) ws))
           = Some (wy\<lparr>balance := b2\<rparr>)"
proof -
  have ux: "userId wx = u" and vy: "userId wy = v"
    using assms findWallet_userId by blast+
  have "findWallet u (saveWallet (wx\<lparr>balance := b1\<rparr>) ws) = Some (wx\<lparr>balance := b1\<rparr>)"
    using findWallet_save_same [of "wx\<lparr>balance := b1\<rparr>" ws wx] assms(1) ux by simp
  then show "findWallet u (saveWallet (wy\<lparr>balance := b2\<rparr>) (saveWallet (wx\<lparr>balance := b1\<rparr>) ws))
           = Some (wx\<lparr>balance := b1\<rparr>)"
    using findWallet_save_other [of "wy\<lparr>balance := b2\<rparr>" u] vy assms(3) by simp
  have "findWallet v (saveWallet (wx\<lparr>balance := b1\<rparr>) ws) = Some wy"
    using findWallet_save_other [of "wx\<lparr>balance := b1\<rparr>" v ws] ux assms(2,3) by simp
  then show "findWallet v (saveWallet (wy\<lparr>balance := b2\<rparr>) (saveWallet (wx\<lparr>balance := b1\<rparr>) ws))
           = Some (wy\<lparr>balance := b2\<rparr>)"
    using findWallet_save_same [of "wy\<lparr>balance := b2\<rparr>" _ wy] vy by simp
qed

section \<open>Facts about the handlers\<close>

lemma commitAndRespond_Inr:
  "commitAndRespond f d ws tx msg bal = Inr (r, d') \<Longrightarrow>
     r = Success msg bal tx \<and> d' = d\<lparr>wallets := ws, transactions := transactions d @ [tx]\<rparr>"
  by (auto simp: commitAndRespond_def split: option.splits)

lemma flagAndCommit_Inr:
  assumes "flagAndCommit f now1 now2 d ws u tx msg bal = Inr (r, d')"
  shows "\<exists>tx'. r = Success msg bal tx'
           \<and> d' = d\<lparr>wallets := ws, transactions := transactions d @ [tx']\<rparr>
           \<and> (detectFraud f now1 now2 (transactions d) u tx = Inr None \<and> tx' = tx
              \<or> (\<exists>reason. detectFraud f now1 now2 (transactions d) u tx = Inr (Some reason)
                    \<and> tx' = setFlag reason tx))"
  using assms
  by (auto simp: flagAndCommit_def split: sum.splits option.splits dest!: commitAndRespond_Inr)

lemma flagAndCommit_noFaults:
  "flagAndCommit noFaults now1 now2 d ws u tx msg bal =
     (case detectFraud noFaults now1 now2 (transactions d) u tx of
        Inl err \<Rightarrow> Inl err
      | Inr None \<Rightarrow>
          Inr (Success msg bal tx, d\<lparr>wallets := ws, transactions := transactions d @ [tx]\<rparr>)
      | Inr (Some reason) \<Rightarrow>
          Inr (Success msg bal (setFlag reason tx),
               d\<lparr>wallets := ws, transactions := transactions d @ [setFlag reason tx]\<rparr>))"
  by (auto simp: flagAndCommit_def commitAndRespond_def noFaults_def
           split: sum.splits option.splits)

lemma detectFraud_noFaults_Inr: "\<exists>res. detectFraud noFaults now1 now2 ledger u tx = Inr res"
  by (simp add: detectFraud_def detectFraudRest_def detectFraudOutlier_def noFaults_def Let_def)

lemma transfer_Success:
  assumes "transfer f tc now1 now2 u toEmail amt d = (Success msg bal tx, d')"
  obtains e a r wx wy where
    "toEmail = Some e" and "amt = Some a" and "0 < a"
    and "findRecipient e (users d) = Some r" and "uid r \<noteq> u"
    and "findWallet u (wallets d) = Some wx" and "\<not> jsLt (balance wx) (Finite a)"
    and "findWallet (uid r) (wallets d) = Some wy"
    and "flagAndCommit f now1 now2 d
           (saveWallet (wy\<lparr>balance := jsAdd (balance wy) (Finite a)\<rparr>)
              (saveWallet (wx\<lparr>balance := jsSub (balance wx) (Finite a)\<rparr>) (wallets d)))
           u (newTransaction tc (Some u) (Some (uid r)) a TRANSFER (walletCurrency wx))
           ''Transfer successful'' (jsSub (balance wx) (Finite a)) = Inr (Success msg bal tx, d')"
  using assms
  by (auto simp: transfer_def transferTry_def transferRecipient_def transferWallets_def Let_def
           split: sum.splits option.splits if_splits)

text \<open>The definitions that evaluate a handler on the example data.\<close>

lemmas eval_defs =
  deposit_def depositTry_def withdraw_def withdrawTry_def
  transfer_def transferTry_def transferRecipient_def transferWallets_def
  flagAndCommit_def commitAndRespond_def setFlag_def newTransaction_def
  detectFraud_def detectFraudRest_def detectFraudOutlier_def
  recentTransfers_def recentTransactions_def avgAmount_def
  findRecipient_def findWallet_def balanceOf_def noFaults_def exampleDb_def largeDb_def
  jsSub_def round_defs

section \<open>Outcomes of the handlers\<close>

text \<open>A handler never answers an error after changing the database, and a 200 answer
  determines the path taken through the handler.\<close>

lemma flagAndCommit_Failure:
  "flagAndCommit f now1 now2 d ws u tx msg bal \<noteq> Inr (Failure st m, d')"
  by (auto dest: flagAndCommit_Inr)

lemma deposit_Failure: "deposit f tc now1 now2 u amt d = (Failure st m, d') \<Longrightarrow> d' = d"
  by (auto simp: deposit_def depositTry_def Let_def flagAndCommit_Failure
           split: sum.splits option.splits if_splits)

lemma withdraw_Failure: "withdraw f tc now1 now2 u amt d = (Failure st m, d') \<Longrightarrow> d' = d"
  by (auto simp: withdraw_def withdrawTry_def Let_def flagAndCommit_Failure
           split: sum.splits option.splits if_splits)

lemma transfer_Failure: "transfer f tc now1 now2 u toEmail amt d = (Failure st m, d') \<Longrightarrow> d' = d"
  by (auto simp: transfer_def transferTry_def transferRecipient_def transferWallets_def Let_def
        flagAndCommit_Failure split: sum.splits option.splits if_splits)

lemma deposit_Success:
  assumes "deposit f tc now1 now2 u amt d = (Success msg bal tx, d')"
  obtains a w where "amt = Some a" and "0 < a" and "findWallet u (wallets d) = Some w"
    and "flagAndCommit f now1 now2 d (saveWallet (w\<lparr>balance := jsAdd (balance w) (Finite a)\<rparr>) (wallets d)) u
           (newTransaction tc None (Some u) a DEPOSIT (walletCurrency w))
           ''Deposit successful'' (jsAdd (balance w) (Finite a)) = Inr (Success msg bal tx, d')"
  using assms
  by (auto simp: deposit_def depositTry_def Let_def split: sum.splits option.splits if_splits)

lemma withdraw_Success:
  assumes "withdraw f tc now1 now2 u amt d = (Success msg bal tx, d')"
  obtains a w where "amt = Some a" and "0 < a" and "findWallet u (wallets d) = Some w"
    and "\<not> jsLt (balance w) (Finite a)"
    and "flagAndCommit f now1 now2 d (saveWallet (w\<lparr>balance := jsSub (balance w) (Finite a)\<rparr>) (wallets d)) u
           (newTransaction tc (Some u) None a WITHDRAWAL (walletCurrency w))
           ''Withdrawal successful'' (jsSub (balance w) (Finite a)) = Inr (Success msg bal tx, d')"
  using assms
  by (auto simp: withdraw_def withdrawTry_def Let_def split: sum.splits option.splits if_splits)

lemma withdraw_noFaults:
  assumes "0 < a" and "findWallet u (wallets d) = Some w" and "\<not> jsLt (balance w) (Finite a)"
  shows "\<exists>res tx. detectFraud noFaults now1 now2 (transactions d) u
                     (newTransaction tc (Some u) None a WITHDRAWAL (walletCurrency w)) = Inr res
           \<and> tx = (case res of None \<Rightarrow> newTransaction tc (Some u) None a WITHDRAWAL (walletCurrency w)
                   | Some reason \<Rightarrow> setFlag reason
                       (newTransaction tc (Some u) None a WITHDRAWAL (walletCurrency w)))
           \<and> withdraw noFaults tc now1 now2 u (Some a) d
               = (Success ''Withdrawal successful'' (jsSub (balance w) (Finite a)) tx,
                  d\<lparr>wallets := saveWallet (w\<lparr>balance := jsSub (balance w) (Finite a)\<rparr>) (wallets d),
                    transactions := transactions d @ [tx]\<rparr>)"
proof -
  obtain res where res: "detectFraud noFaults now1 now2 (transactions d) u
                     (newTransaction tc (Some u) None a WITHDRAWAL (walletCurrency w)) = Inr res"
    using detectFraud_noFaults_Inr by blast
  have nf: "noFaults WalletFindOne = None" "noFaults WalletSave = None"
    "noFaults TransactionCreate = None"
    by (simp_all add: noFaults_def)
  show ?thesis
    using assms res nf
    by (cases res) (simp_all add: withdraw_def withdrawTry_def Let_def flagAndCommit_noFaults)
qed

lemma transfer_noFaults:
  assumes "e \<noteq> []" and "0 < a" and "findRecipient e (users d) = Some r" and "uid r \<noteq> u"
    and "findWallet u (wallets d) = Some wx" and "\<not> jsLt (balance wx) (Finite a)"
    and "findWallet (uid r) (wallets d) = Some wy"
  shows "\<exists>res tx. detectFraud noFaults now1 now2 (transactions d) u
                     (newTransaction tc (Some u) (Some (uid r)) a TRANSFER (walletCurrency wx)) = Inr res
           \<and> tx = (case res of
                     None \<Rightarrow> newTransaction tc (Some u) (Some (uid r)) a TRANSFER (walletCurrency wx)
                   | Some reason \<Rightarrow> setFlag reason
                       (newTransaction tc (Some u) (Some (uid r)) a TRANSFER (walletCurrency wx)))
           \<and> transfer noFaults tc now1 now2 u (Some e) (Some a) d
               = (Success ''Transfer successful'' (jsSub (balance wx) (Finite a)) tx,
                  d\<lparr>wallets := saveWallet (wy\<lparr>balance := jsAdd (balance wy) (Finite a)\<rparr>)
                                 (saveWallet (wx\<lparr>balance := jsSub (balance wx) (Finite a)\<rparr>) (wallets d)),
                    transactions := transactions d @ [tx]\<rparr>)"
proof -
  obtain res where res: "detectFraud noFaults now1 now2 (transactions d) u
         (newTransaction tc (Some u) (Some (uid r)) a TRANSFER (walletCurrency wx)) = Inr res"
    using detectFraud_noFaults_Inr by blast
  have nf: "noFaults UserFindOne = None" "noFaults WalletFindOne = None"
    "noFaults WalletSave = None" "noFaults TransactionCreate = None"
    by (simp_all add: noFaults_def)
  show ?thesis
    using assms res nf
    by (cases res) (simp_all add: transfer_def transferTry_def transferRecipient_def
          transferWallets_def Let_def flagAndCommit_noFaults)
qed

lemma list_all_saveWallet:
  "list_all P ws \<Longrightarrow> P w \<Longrightarrow> list_all P (saveWallet w ws)"
  by (induction ws) auto

section \<open>The example data after some transfers\<close>

lemma afterTransfers_1:
  "afterTransfers (Suc 0) =
     exampleDb\<lparr>wallets := [\<lparr>userId = 1, balance = Finite 1990, walletCurrency = ''USD''\<rparr>,
                           \<lparr>userId = 2, balance = Finite 60, walletCurrency = ''EUR''\<rparr>],
               transactions := [newTransaction 0 (Some 1) (Some 2) 10 TRANSFER ''USD'']\<rparr>"
  by (simp add: eval_defs)

lemma afterTransfers_4:
  "afterTransfers 4 =
     exampleDb\<lparr>wallets := [\<lparr>userId = 1, balance = Finite 1960, walletCurrency = ''USD''\<rparr>,
                           \<lparr>userId = 2, balance = Finite 90, walletCurrency = ''EUR''\<rparr>],
               transactions := [newTransaction 0 (Some 1) (Some 2) 10 TRANSFER ''USD'',
                                newTransaction 1 (Some 1) (Some 2) 10 TRANSFER ''USD'',
                                newTransaction 2 (Some 1) (Some 2) 10 TRANSFER ''USD'',
                                newTransaction 3 (Some 1) (Some 2) 10 TRANSFER ''USD'']\<rparr>"
  by (simp add: eval_nat_numeral eval_defs)

lemma afterTransfers_5:
  "afterTransfers 5 =
     exampleDb\<lparr>wallets := [\<lparr>userId = 1, balance = Finite 1950, walletCurrency = ''USD''\<rparr>,
                           \<lparr>userId = 2, balance = Finite 100, walletCurrency = ''EUR''\<rparr>],
               transactions := [newTransaction 0 (Some 1) (Some 2) 10 TRANSFER ''USD'',
                                newTransaction 1 (Some 1) (Some 2) 10 TRANSFER ''USD'',
                                newTransaction 2 (Some 1) (Some 2) 10 TRANSFER ''USD'',
                                newTransaction 3 (Some 1) (Some 2) 10 TRANSFER ''USD'',
                                newTransaction 4 (Some 1) (Some 2) 10 TRANSFER ''USD'']\<rparr>"
  by (simp add: eval_nat_numeral eval_defs)

lemma recentTransfers_snoc:
  "recentTransfers now u (ts @ [t]) =
     recentTransfers now u ts
       @ (if fromUserId t = Some u \<and> type' t = TRANSFER \<and> now - 3600000 \<le> createdAt t
          then [t] else [])"
  by (simp add: recentTransfers_def Let_def)

section \<open>Balances and ledger after a transfer\<close>

text \<open>
  Claim C1, as stated, fails, because balances are doubles. With a sender holding 2 and a
  recipient holding \<open>2\<^sup>5\<^sup>3\<close>, a transfer of 1 is answered with 200; the sender's balance
  becomes 1 and the recipient's stays \<open>2\<^sup>5\<^sup>3\<close>, since \<open>2\<^sup>5\<^sup>3 + 1\<close> is not a double and
  is rounded back. The sum of the two balances has dropped by 1.
\<close>

theorem transfer_sum_not_conserved_counterexample:
  "balanceOf 1 largeDb = Some (Finite 2)
   \<and> balanceOf 2 largeDb = Some (Finite 9007199254740992)
   \<and> fst (transfer noFaults 0 0 0 1 (Some ''b@x'') (Some 1) largeDb)
       = Success ''Transfer successful'' (Finite 1)
           (newTransaction 0 (Some 1) (Some 2) 1 TRANSFER ''USD'')
   \<and> balanceOf 1 (snd (transfer noFaults 0 0 0 1 (Some ''b@x'') (Some 1) largeDb))
       = Some (Finite 1)
   \<and> balanceOf 2 (snd (transfer noFaults 0 0 0 1 (Some ''b@x'') (Some 1) largeDb))
       = Some (Finite 9007199254740992)"
  by (simp add: eval_defs)

text \<open>
  Claim C1, amended. Whenever \<open>transfer\<close> answers 200, the request named a recipient
  account different from the sender and both accounts have wallets; the sender's new
  balance is the double nearest to the old balance minus the amount and the recipient's
  new balance is the double nearest to the old balance plus the amount. When both exact
  results are doubles, so that nothing is rounded, the new balances are exactly these and
  their sum equals the sum before the operation. The ledger has grown by exactly one
  record, the returned one, of type TRANSFER with the sender as source and the recipient
  as destination.
\<close>

theorem transfer_conserves_sum:
  assumes "transfer f tc now1 now2 x toEmail amt d = (Success msg bal tx, d')"
  shows "\<exists>e r a bx by.
           toEmail = Some e \<and> findRecipient e (users d) = Some r \<and> amt = Some a \<and> x \<noteq> uid r
         \<and> balanceOf x d = Some bx \<and> balanceOf (uid r) d = Some by
         \<and> balanceOf x d' = Some (jsSub bx (Finite a))
         \<and> balanceOf (uid r) d' = Some (jsAdd by (Finite a))
         \<and> (\<forall>qx qy. bx = Finite qx \<and> by = Finite qy \<and> isDouble (qx - a) \<and> isDouble (qy + a) \<longrightarrow>
               (\<exists>qx' qy'. balanceOf x d' = Some (Finite qx')
                    \<and> balanceOf (uid r) d' = Some (Finite qy')
                    \<and> qx' = qx - a \<and> qy' = qy + a \<and> qx' + qy' = qx + qy))
         \<and> transactions d' = transactions d @ [tx]
         \<and> type' tx = TRANSFER \<and> fromUserId tx = Some x \<and> toUserId tx = Some (uid r)
         \<and> amount tx = Finite a"
proof -
  from assms obtain e a r wx wy where
    in1: "toEmail = Some e" "amt = Some a" "findRecipient e (users d) = Some r" "uid r \<noteq> x"
    and wx: "findWallet x (wallets d) = Some wx"
    and wy: "findWallet (uid r) (wallets d) = Some wy"
    and fc: "flagAndCommit f now1 now2 d
           (saveWallet (wy\<lparr>balance := jsAdd (balance wy) (Finite a)\<rparr>)
              (saveWallet (wx\<lparr>balance := jsSub (balance wx) (Finite a)\<rparr>) (wallets d)))
           x (newTransaction tc (Some x) (Some (uid r)) a TRANSFER (walletCurrency wx))
           ''Transfer successful'' (jsSub (balance wx) (Finite a))
             = Inr (Success msg bal tx, d')"
    by (rule transfer_Success)
  let ?tx0 = "newTransaction tc (Some x) (Some (uid r)) a TRANSFER (walletCurrency wx)"
  from flagAndCommit_Inr [OF fc] have
    d': "d' = d\<lparr>wallets := saveWallet (wy\<lparr>balance := jsAdd (balance wy) (Finite a)\<rparr>)
              (saveWallet (wx\<lparr>balance := jsSub (balance wx) (Finite a)\<rparr>) (wallets d)),
            transactions := transactions d @ [tx]\<rparr>"
    and tx: "tx = ?tx0 \<or> (\<exists>reason. tx = setFlag reason ?tx0)"
    by auto
  have after: "balanceOf x d' = Some (jsSub (balance wx) (Finite a))"
    "balanceOf (uid r) d' = Some (jsAdd (balance wy) (Finite a))"
    using findWallet_after_transfer [OF wx wy] in1(4) by (simp_all add: balanceOf_def d')
  have before: "balanceOf x d = Some (balance wx)" "balanceOf (uid r) d = Some (balance wy)"
    using wx wy by (simp_all add: balanceOf_def)
  have exact: "\<exists>qx' qy'. balanceOf x d' = Some (Finite qx')
                    \<and> balanceOf (uid r) d' = Some (Finite qy')
                    \<and> qx' = qx - a \<and> qy' = qy + a \<and> qx' + qy' = qx + qy"
    if "balance wx = Finite qx \<and> balance wy = Finite qy \<and> isDouble (qx - a) \<and> isDouble (qy + a)"
    for qx qy
    using that after by (simp add: jsSub_Finite isDouble_def)
  have fields: "type' tx = TRANSFER \<and> fromUserId tx = Some x \<and> toUserId tx = Some (uid r)
         \<and> amount tx = Finite a"
    using tx by (auto simp: newTransaction_def setFlag_def)
  have led: "transactions d' = transactions d @ [tx]"
    by (simp add: d')
  show ?thesis
    using in1 after before fields led exact by auto
qed

theorem transfer_conserves_sum_witness:
  "\<exists>tx d'. transfer noFaults 0 0 0 1 (Some ''b@x'') (Some 10) exampleDb
              = (Success ''Transfer successful'' (Finite 1990) tx, d')
         \<and> balanceOf 1 exampleDb = Some (Finite 2000) \<and> balanceOf 2 exampleDb = Some (Finite 50)
         \<and> isDouble (2000 - 10) \<and> isDouble (50 + 10)
         \<and> balanceOf 1 d' = Some (Finite 1990) \<and> balanceOf 2 d' = Some (Finite 60)
         \<and> transactions d' = [tx] \<and> type' tx = TRANSFER
         \<and> fromUserId tx = Some 1 \<and> toUserId tx = Some 2"
proof -
  obtain r d' where run: "transfer noFaults 0 0 0 1 (Some ''b@x'') (Some 10) exampleDb = (r, d')"
    by (cases "transfer noFaults 0 0 0 1 (Some ''b@x'') (Some 10) exampleDb")
  have "\<exists>tx. r = Success ''Transfer successful'' (Finite 1990) tx"
    using run by (auto simp: eval_defs)
  then obtain tx where tx: "r = Success ''Transfer successful'' (Finite 1990) tx" by blast
  have ex: "findRecipient ''b@x'' (users exampleDb)
              = Some \<lparr>uid = 2, email = ''b@x'', userIsDeleted = False\<rparr>"
    by (simp add: findRecipient_def exampleDb_def)
  have b: "balanceOf 1 exampleDb = Some (Finite 2000)" "balanceOf 2 exampleDb = Some (Finite 50)"
    by (simp_all add: balanceOf_def findWallet_def exampleDb_def)
  have dbl: "isDouble (2000 - 10)" "isDouble (50 + 10)"
    using isDouble_examples by simp_all
  from transfer_conserves_sum [OF run [unfolded tx]] ex b dbl
  have "balanceOf 1 d' = Some (Finite 1990) \<and> balanceOf 2 d' = Some (Finite 60)
         \<and> transactions d' = transactions exampleDb @ [tx] \<and> type' tx = TRANSFER
         \<and> fromUserId tx = Some 1 \<and> toUserId tx = Some 2"
    by auto
  then show ?thesis
    using run tx b dbl by (simp add: exampleDb_def)
qed

section \<open>Rejection of invalid amounts\<close>

text \<open>
  Claim C2. For a missing, zero or negative amount each of the three handlers answers
  400 with its validation message (the invalid-amount error) and returns the database,
  wallets and ledger included, as it was; this holds whatever the other inputs are and
  whichever storage operations would fail.
\<close>

theorem invalid_amount_rejected:
  assumes "invalidAmount amt"
  shows "deposit f tc now1 now2 u amt d = (Failure 400 ''Valid amount is required'', d)
       \<and> withdraw f tc now1 now2 u amt d = (Failure 400 ''Valid amount is required'', d)
       \<and> transfer f tc now1 now2 u toEmail amt d
           = (Failure 400 ''Valid recipient email and amount are required'', d)"
  using assms
  by (auto simp: invalidAmount_def deposit_def depositTry_def withdraw_def withdrawTry_def
        transfer_def transferTry_def split: option.splits)

theorem invalid_amount_rejected_witness:
  "invalidAmount (Some (- 5)) \<and> invalidAmount (Some 0) \<and> invalidAmount None
   \<and> deposit noFaults 0 0 0 1 (Some (- 5)) exampleDb
       = (Failure 400 ''Valid amount is required'', exampleDb)
   \<and> withdraw noFaults 0 0 0 1 (Some 0) exampleDb
       = (Failure 400 ''Valid amount is required'', exampleDb)
   \<and> transfer noFaults 0 0 0 1 (Some ''b@x'') None exampleDb
       = (Failure 400 ''Valid recipient email and amount are required'', exampleDb)"
proof -
  have h: "invalidAmount (Some (- 5))" "invalidAmount (Some 0)" "invalidAmount None"
    by (simp_all add: invalidAmount_def)
  show ?thesis
    using h invalid_amount_rejected [OF h(1), of noFaults 0 0 0 1 exampleDb]
      invalid_amount_rejected [OF h(2), of noFaults 0 0 0 1 exampleDb]
      invalid_amount_rejected [OF h(3), of noFaults 0 0 0 1 exampleDb "Some ''b@x''"]
    by simp
qed

section \<open>Withdrawing the full balance, and more\<close>

text \<open>
  Claim C3. For a user whose wallet holds a balance \<open>B > 0\<close>: when no storage
  operation fails, \<open>withdraw\<close> of exactly \<open>B\<close> answers 200 with new balance 0,
  the stored balance is 0 and one WITHDRAWAL record of amount \<open>B\<close> is appended; and
  \<open>withdraw\<close> of any amount greater than \<open>B\<close> answers 400 "Insufficient funds"
  and returns the database, balance and ledger included, unchanged.
\<close>

theorem withdraw_full_balance_and_overdraw:
  assumes "findWallet u (wallets d) = Some w" and "balance w = Finite B" and "0 < B"
  shows "(\<exists>tx d'. withdraw noFaults tc now1 now2 u (Some B) d
                    = (Success ''Withdrawal successful'' (Finite 0) tx, d')
               \<and> balanceOf u d' = Some (Finite 0) \<and> transactions d' = transactions d @ [tx]
               \<and> type' tx = WITHDRAWAL \<and> fromUserId tx = Some u \<and> amount tx = Finite B)
       \<and> (\<forall>f a. f WalletFindOne = None \<and> B < a \<longrightarrow>
             withdraw f tc now1 now2 u (Some a) d = (Failure 400 ''Insufficient funds'', d))"
proof (intro conjI allI impI)
  let ?tx0 = "newTransaction tc (Some u) None B WITHDRAWAL (walletCurrency w)"
  have nl: "\<not> jsLt (balance w) (Finite B)"
    using assms(2) by simp
  have z: "jsSub (balance w) (Finite B) = Finite 0"
    using assms(2) by (simp add: jsSub_Finite roundToDouble_zero)
  from withdraw_noFaults [OF assms(3) assms(1) nl, of now1 now2 tc]
  obtain res tx where
    tx: "tx = (case res of None \<Rightarrow> ?tx0 | Some reason \<Rightarrow> setFlag reason ?tx0)"
    and run: "withdraw noFaults tc now1 now2 u (Some B) d
               = (Success ''Withdrawal successful'' (jsSub (balance w) (Finite B)) tx,
                  d\<lparr>wallets := saveWallet (w\<lparr>balance := jsSub (balance w) (Finite B)\<rparr>) (wallets d),
                    transactions := transactions d @ [tx]\<rparr>)"
    by blast
  have uw: "userId w = u"
    using assms(1) by (rule findWallet_userId)
  have "findWallet u (saveWallet (w\<lparr>balance := Finite 0\<rparr>) (wallets d))
          = Some (w\<lparr>balance := Finite 0\<rparr>)"
    using findWallet_save_same [of "w\<lparr>balance := Finite 0\<rparr>" "wallets d" w] assms(1) uw by simp
  moreover have "type' tx = WITHDRAWAL \<and> fromUserId tx = Some u \<and> amount tx = Finite B"
    using tx by (cases res) (simp_all add: newTransaction_def setFlag_def)
  ultimately show "\<exists>tx d'. withdraw noFaults tc now1 now2 u (Some B) d
                    = (Success ''Withdrawal successful'' (Finite 0) tx, d')
               \<and> balanceOf u d' = Some (Finite 0) \<and> transactions d' = transactions d @ [tx]
               \<and> type' tx = WITHDRAWAL \<and> fromUserId tx = Some u \<and> amount tx = Finite B"
    using run z by (simp add: balanceOf_def)
next
  fix f :: faults and a
  assume "f WalletFindOne = None \<and> B < a"
  then show "withdraw f tc now1 now2 u (Some a) d = (Failure 400 ''Insufficient funds'', d)"
    using assms by (auto simp: withdraw_def withdrawTry_def)
qed

theorem withdraw_full_balance_and_overdraw_witness:
  "(\<exists>tx d'. withdraw noFaults 0 0 0 2 (Some 50) exampleDb
                    = (Success ''Withdrawal successful'' (Finite 0) tx, d')
               \<and> balanceOf 2 d' = Some (Finite 0) \<and> transactions d' = [tx]
               \<and> amount tx = Finite 50)
   \<and> withdraw noFaults 0 0 0 2 (Some (50 + 1 / 100)) exampleDb
       = (Failure 400 ''Insufficient funds'', exampleDb)"
proof -
  have w: "findWallet 2 (wallets exampleDb)
             = Some \<lparr>userId = 2, balance = Finite 50, walletCurrency = ''EUR''\<rparr>"
    by (simp add: findWallet_def exampleDb_def)
  have b: "balance \<lparr>userId = 2, balance = Finite 50, walletCurrency = ''EUR''\<rparr> = Finite 50"
    by simp
  have p: "(0::real) < 50"
    by simp
  have nf: "noFaults WalletFindOne = None"
    by (simp add: noFaults_def)
  note inst = withdraw_full_balance_and_overdraw [OF w b p, of 0 0 0]
  from inst have "\<exists>tx d'. withdraw noFaults 0 0 0 2 (Some 50) exampleDb
                    = (Success ''Withdrawal successful'' (Finite 0) tx, d')
               \<and> balanceOf 2 d' = Some (Finite 0)
               \<and> transactions d' = transactions exampleDb @ [tx]
               \<and> amount tx = Finite 50"
    by auto
  then have first: "\<exists>tx d'. withdraw noFaults 0 0 0 2 (Some 50) exampleDb
                    = (Success ''Withdrawal successful'' (Finite 0) tx, d')
               \<and> balanceOf 2 d' = Some (Finite 0) \<and> transactions d' = [tx]
               \<and> amount tx = Finite 50"
    by (simp add: exampleDb_def)
  from inst have "\<forall>f a. f WalletFindOne = None \<and> 50 < a \<longrightarrow>
             withdraw f 0 0 0 2 (Some a) exampleDb = (Failure 400 ''Insufficient funds'', exampleDb)"
    by simp
  from this [rule_format, of noFaults "50 + 1 / 100"] nf
  have second: "withdraw noFaults 0 0 0 2 (Some (50 + 1 / 100)) exampleDb
       = (Failure 400 ''Insufficient funds'', exampleDb)"
    by simp
  from first second show ?thesis
    by blast
qed

section \<open>The large-withdrawal rule\<close>

lemma detectFraud_large:
  "type' tx = WITHDRAWAL \<Longrightarrow> jsLt (Finite 1000) (amount tx) \<Longrightarrow>
     detectFraud f now1 now2 ledger v tx = Inr (Some ''Large withdrawal'')"
  by (simp add: detectFraud_def detectFraudRest_def)

lemma detectFraud_not_large:
  "type' tx = WITHDRAWAL \<Longrightarrow> \<not> jsLt (Finite 1000) (amount tx) \<Longrightarrow>
     detectFraud f now1 now2 ledger v tx \<noteq> Inr (Some ''Large withdrawal'')"
  by (auto simp: detectFraud_def detectFraudRest_def detectFraudOutlier_def Let_def
           split: option.splits)

text \<open>
  Claim C7. \<open>detectFraud\<close> gives the reason "Large withdrawal" for every WITHDRAWAL
  whose amount is strictly greater than 1000, and never gives it for a WITHDRAWAL whose
  amount is not. In the handler: every 200 answer of \<open>withdraw\<close> returns the
  WITHDRAWAL record it appended, and for an amount above 1000 that record is flagged with
  the reason "Large withdrawal", for an amount of 1000 or less it does not carry that
  reason; a withdrawal of more than 1000 that the balance covers is answered with 200
  when no storage operation fails. From a wallet with balance 2000, \<open>withdraw\<close> of 1500
  then answers 200 with new balance 500; the returned transaction has type WITHDRAWAL,
  amount 1500, is flagged and carries the reason "Large withdrawal".
\<close>

theorem large_withdrawal_flagged:
  "(type' tx = WITHDRAWAL \<and> jsLt (Finite 1000) (amount tx) \<longrightarrow>
      detectFraud f now1 now2 ledger v tx = Inr (Some ''Large withdrawal''))
   \<and> (type' tx = WITHDRAWAL \<and> \<not> jsLt (Finite 1000) (amount tx) \<longrightarrow>
      detectFraud f now1 now2 ledger v tx \<noteq> Inr (Some ''Large withdrawal''))
   \<and> (withdraw f tc now1 now2 u amt d = (Success msg bal t, d') \<longrightarrow>
        (\<exists>a. amt = Some a \<and> transactions d' = transactions d @ [t]
            \<and> type' t = WITHDRAWAL \<and> fromUserId t = Some u \<and> amount t = Finite a
            \<and> (1000 < a \<longrightarrow> isFlagged t \<and> flagReason t = Some ''Large withdrawal'')
            \<and> (a \<le> 1000 \<longrightarrow> flagReason t \<noteq> Some ''Large withdrawal'')))
   \<and> (1000 < a \<and> findWallet u (wallets d) = Some w \<and> jsLe (Finite a) (balance w) \<longrightarrow>
        (\<exists>b t d'. withdraw noFaults tc now1 now2 u (Some a) d
                   = (Success ''Withdrawal successful'' b t, d')
              \<and> transactions d' = transactions d @ [t]
              \<and> type' t = WITHDRAWAL \<and> amount t = Finite a \<and> isFlagged t
              \<and> flagReason t = Some ''Large withdrawal''))
   \<and> (findWallet u (wallets d) = Some w \<and> balance w = Finite 2000 \<longrightarrow>
        (\<exists>t d'. withdraw noFaults tc now1 now2 u (Some 1500) d
                   = (Success ''Withdrawal successful'' (Finite 500) t, d')
              \<and> balanceOf u d' = Some (Finite 500) \<and> transactions d' = transactions d @ [t]
              \<and> type' t = WITHDRAWAL \<and> amount t = Finite 1500 \<and> isFlagged t
              \<and> flagReason t = Some ''Large withdrawal''))"
proof (intro conjI impI)
  assume "type' tx = WITHDRAWAL \<and> jsLt (Finite 1000) (amount tx)"
  then show "detectFraud f now1 now2 ledger v tx = Inr (Some ''Large withdrawal'')"
    by (simp add: detectFraud_large)
next
  assume "type' tx = WITHDRAWAL \<and> \<not> jsLt (Finite 1000) (amount tx)"
  then show "detectFraud f now1 now2 ledger v tx \<noteq> Inr (Some ''Large withdrawal'')"
    by (simp add: detectFraud_not_large)
next
  assume run: "withdraw f tc now1 now2 u amt d = (Success msg bal t, d')"
  from run obtain a w where aw: "amt = Some a" "0 < a" "findWallet u (wallets d) = Some w"
    "\<not> jsLt (balance w) (Finite a)"
    and fc: "flagAndCommit f now1 now2 d
       (saveWallet (w\<lparr>balance := jsSub (balance w) (Finite a)\<rparr>) (wallets d)) u
       (newTransaction tc (Some u) None a WITHDRAWAL (walletCurrency w))
       ''Withdrawal successful'' (jsSub (balance w) (Finite a)) = Inr (Success msg bal t, d')"
    by (rule withdraw_Success)
  let ?tx0 = "newTransaction tc (Some u) None a WITHDRAWAL (walletCurrency w)"
  from flagAndCommit_Inr [OF fc] have
    led: "transactions d' = transactions d @ [t]"
    and t: "detectFraud f now1 now2 (transactions d) u ?tx0 = Inr None \<and> t = ?tx0
         \<or> (\<exists>reason. detectFraud f now1 now2 (transactions d) u ?tx0 = Inr (Some reason)
                \<and> t = setFlag reason ?tx0)"
    by auto
  have ty: "type' ?tx0 = WITHDRAWAL" "amount ?tx0 = Finite a" "flagReason ?tx0 = None"
    by (simp_all add: newTransaction_def)
  have fields: "type' t = WITHDRAWAL \<and> fromUserId t = Some u \<and> amount t = Finite a"
    using t by (auto simp: newTransaction_def setFlag_def)
  have hi: "isFlagged t \<and> flagReason t = Some ''Large withdrawal''" if "1000 < a"
    using t detectFraud_large [of ?tx0 f now1 now2 "transactions d" u] that ty
    by (auto simp: setFlag_def)
  have lo: "flagReason t \<noteq> Some ''Large withdrawal''" if "a \<le> 1000"
    using t detectFraud_not_large [of ?tx0 f now1 now2 "transactions d" u] that ty
    by (auto simp: setFlag_def)
  show "\<exists>a. amt = Some a \<and> transactions d' = transactions d @ [t]
            \<and> type' t = WITHDRAWAL \<and> fromUserId t = Some u \<and> amount t = Finite a
            \<and> (1000 < a \<longrightarrow> isFlagged t \<and> flagReason t = Some ''Large withdrawal'')
            \<and> (a \<le> 1000 \<longrightarrow> flagReason t \<noteq> Some ''Large withdrawal'')"
    using aw(1) led fields hi lo by blast
next
  assume a: "1000 < a \<and> findWallet u (wallets d) = Some w \<and> jsLe (Finite a) (balance w)"
  let ?tx0 = "newTransaction tc (Some u) None a WITHDRAWAL (walletCurrency w)"
  have df: "detectFraud noFaults now1 now2 (transactions d) u ?tx0
              = Inr (Some ''Large withdrawal'')"
    using a by (simp add: detectFraud_large newTransaction_def)
  from a have "0 < a" "findWallet u (wallets d) = Some w" "\<not> jsLt (balance w) (Finite a)"
    by (simp_all add: jsLe_not_jsLt)
  from withdraw_noFaults [OF this, of now1 now2 tc] df
  have "withdraw noFaults tc now1 now2 u (Some a) d
          = (Success ''Withdrawal successful'' (jsSub (balance w) (Finite a))
               (setFlag ''Large withdrawal'' ?tx0),
             d\<lparr>wallets := saveWallet (w\<lparr>balance := jsSub (balance w) (Finite a)\<rparr>) (wallets d),
               transactions := transactions d @ [setFlag ''Large withdrawal'' ?tx0]\<rparr>)"
    by auto
  then show "\<exists>b t d'. withdraw noFaults tc now1 now2 u (Some a) d
                   = (Success ''Withdrawal successful'' b t, d')
              \<and> transactions d' = transactions d @ [t]
              \<and> type' t = WITHDRAWAL \<and> amount t = Finite a \<and> isFlagged t
              \<and> flagReason t = Some ''Large withdrawal''"
    by (simp add: setFlag_def newTransaction_def)
next
  assume a: "findWallet u (wallets d) = Some w \<and> balance w = Finite 2000"
  let ?tx0 = "newTransaction tc (Some u) None 1500 WITHDRAWAL (walletCurrency w)"
  have df: "detectFraud noFaults now1 now2 (transactions d) u ?tx0
              = Inr (Some ''Large withdrawal'')"
    by (simp add: detectFraud_large newTransaction_def)
  have five: "jsSub (balance w) (Finite 1500) = Finite 500"
    using a isDouble_examples(3) by (simp add: jsSub_Finite isDouble_def)
  from a have "(0::real) < 1500" "findWallet u (wallets d) = Some w"
    "\<not> jsLt (balance w) (Finite 1500)"
    by simp_all
  from withdraw_noFaults [OF this, of now1 now2 tc] df
  have run: "withdraw noFaults tc now1 now2 u (Some 1500) d
       = (Success ''Withdrawal successful'' (jsSub (balance w) (Finite 1500))
            (setFlag ''Large withdrawal'' ?tx0),
          d\<lparr>wallets := saveWallet (w\<lparr>balance := jsSub (balance w) (Finite 1500)\<rparr>) (wallets d),
            transactions := transactions d @ [setFlag ''Large withdrawal'' ?tx0]\<rparr>)"
    by auto
  have uw: "userId w = u"
    using a findWallet_userId by blast
  have "findWallet u (saveWallet (w\<lparr>balance := Finite 500\<rparr>) (wallets d))
          = Some (w\<lparr>balance := Finite 500\<rparr>)"
    using findWallet_save_same [of "w\<lparr>balance := Finite 500\<rparr>" "wallets d" w] a uw by simp
  then show "\<exists>t d'. withdraw noFaults tc now1 now2 u (Some 1500) d
                   = (Success ''Withdrawal successful'' (Finite 500) t, d')
              \<and> balanceOf u d' = Some (Finite 500) \<and> transactions d' = transactions d @ [t]
              \<and> type' t = WITHDRAWAL \<and> amount t = Finite 1500 \<and> isFlagged t
              \<and> flagReason t = Some ''Large withdrawal''"
    using run five by (simp add: balanceOf_def setFlag_def newTransaction_def)
qed

theorem large_withdrawal_flagged_witness:
  "withdraw noFaults 7 8 9 1 (Some 1500) exampleDb
     = (Success ''Withdrawal successful'' (Finite 500)
          \<lparr>fromUserId = Some 1, toUserId = None, amount = Finite 1500, type' = WITHDRAWAL,
           currency = ''USD'', isFlagged = True, flagReason = Some ''Large withdrawal'',
           isDeleted = False, createdAt = 7\<rparr>,
        exampleDb\<lparr>wallets := [\<lparr>userId = 1, balance = Finite 500, walletCurrency = ''USD''\<rparr>,
                              \<lparr>userId = 2, balance = Finite 50, walletCurrency = ''EUR''\<rparr>],
                  transactions :=
                    [\<lparr>fromUserId = Some 1, toUserId = None, amount = Finite 1500,
                      type' = WITHDRAWAL, currency = ''USD'', isFlagged = True,
                      flagReason = Some ''Large withdrawal'', isDeleted = False,
                      createdAt = 7\<rparr>]\<rparr>)
   \<and> (\<exists>b t d'. withdraw noFaults 7 8 9 1 (Some 1200) exampleDb
                  = (Success ''Withdrawal successful'' b t, d')
             \<and> transactions d' = transactions exampleDb @ [t] \<and> amount t = Finite 1200
             \<and> isFlagged t \<and> flagReason t = Some ''Large withdrawal'')"
proof -
  let ?w = "\<lparr>userId = 1, balance = Finite 2000, walletCurrency = ''USD''\<rparr>"
  have w: "findWallet 1 (wallets exampleDb) = Some ?w \<and> balance ?w = Finite 2000"
    by (simp add: findWallet_def exampleDb_def)
  have g: "(1000::real) < 1200 \<and> findWallet 1 (wallets exampleDb) = Some ?w
      \<and> jsLe (Finite 1200) (balance ?w)"
    by (simp add: findWallet_def exampleDb_def)
  note t = large_withdrawal_flagged
  from t [THEN conjunct2, THEN conjunct2, THEN conjunct2, THEN conjunct2, rule_format, OF w,
      of 7 8 9]
  obtain t1 d1 where run: "withdraw noFaults 7 8 9 1 (Some 1500) exampleDb
                   = (Success ''Withdrawal successful'' (Finite 500) t1, d1)"
    and "isFlagged t1"
    by blast
  then have first: "withdraw noFaults 7 8 9 1 (Some 1500) exampleDb
     = (Success ''Withdrawal successful'' (Finite 500)
          \<lparr>fromUserId = Some 1, toUserId = None, amount = Finite 1500, type' = WITHDRAWAL,
           currency = ''USD'', isFlagged = True, flagReason = Some ''Large withdrawal'',
           isDeleted = False, createdAt = 7\<rparr>,
        exampleDb\<lparr>wallets := [\<lparr>userId = 1, balance = Finite 500, walletCurrency = ''USD''\<rparr>,
                              \<lparr>userId = 2, balance = Finite 50, walletCurrency = ''EUR''\<rparr>],
                  transactions :=
                    [\<lparr>fromUserId = Some 1, toUserId = None, amount = Finite 1500,
                      type' = WITHDRAWAL, currency = ''USD'', isFlagged = True,
                      flagReason = Some ''Large withdrawal'', isDeleted = False,
                      createdAt = 7\<rparr>]\<rparr>)"
    by (auto simp: eval_defs)
  from t [THEN conjunct2, THEN conjunct2, THEN conjunct2, THEN conjunct1, rule_format, OF g,
      of 7 8 9]
  have second: "\<exists>b t d'. withdraw noFaults 7 8 9 1 (Some 1200) exampleDb
                  = (Success ''Withdrawal successful'' b t, d')
             \<and> transactions d' = transactions exampleDb @ [t] \<and> amount t = Finite 1200
             \<and> isFlagged t \<and> flagReason t = Some ''Large withdrawal''"
    by blast
  from first second show ?thesis
    by blast
qed

section \<open>Balances never go below zero\<close>

text \<open>
  Claim C9. If every stored wallet balance is at least zero, then after \<open>deposit\<close>,
  \<open>withdraw\<close> or \<open>transfer\<close>, with any inputs and any storage failures, every
  stored wallet balance is still at least zero. (The handlers compare the balance with
  the amount before they write.)
\<close>

theorem balances_stay_nonnegative:
  assumes "nonNegative d"
  shows "nonNegative (snd (deposit f tc now1 now2 u amt d))
       \<and> nonNegative (snd (withdraw f tc now1 now2 u amt d))
       \<and> nonNegative (snd (transfer f tc now1 now2 u toEmail amt d))"
proof (intro conjI)
  have old: "jsLe (Finite 0) (balance w)" if "findWallet v (wallets d) = Some w" for v w
    using assms findWallet_mem [OF that] by (auto simp: nonNegative_def list_all_iff)
  show "nonNegative (snd (deposit f tc now1 now2 u amt d))"
  proof (cases "deposit f tc now1 now2 u amt d")
    case (Pair r d')
    show ?thesis
    proof (cases r)
      case (Failure st m)
      with Pair assms show ?thesis by (auto dest: deposit_Failure)
    next
      case (Success msg bal tx)
      from Pair [unfolded Success] obtain a w where aw: "amt = Some a" "0 < a"
        "findWallet u (wallets d) = Some w"
        and fc: "flagAndCommit f now1 now2 d
           (saveWallet (w\<lparr>balance := jsAdd (balance w) (Finite a)\<rparr>) (wallets d)) u
           (newTransaction tc None (Some u) a DEPOSIT (walletCurrency w))
           ''Deposit successful'' (jsAdd (balance w) (Finite a)) = Inr (Success msg bal tx, d')"
        by (rule deposit_Success)
      from flagAndCommit_Inr [OF fc]
      have "wallets d' = saveWallet (w\<lparr>balance := jsAdd (balance w) (Finite a)\<rparr>) (wallets d)"
        by auto
      moreover have "jsLe (Finite 0) (jsAdd (balance w) (Finite a))"
        using old [OF aw(3)] aw(2) by (simp add: jsAdd_nonneg)
      ultimately show ?thesis
        using Pair assms by (simp add: nonNegative_def list_all_saveWallet)
    qed
  qed
  show "nonNegative (snd (withdraw f tc now1 now2 u amt d))"
  proof (cases "withdraw f tc now1 now2 u amt d")
    case (Pair r d')
    show ?thesis
    proof (cases r)
      case (Failure st m)
      with Pair assms show ?thesis by (auto dest: withdraw_Failure)
    next
      case (Success msg bal tx)
      from Pair [unfolded Success] obtain a w where aw: "amt = Some a" "0 < a"
        "findWallet u (wallets d) = Some w" "\<not> jsLt (balance w) (Finite a)"
        and fc: "flagAndCommit f now1 now2 d
           (saveWallet (w\<lparr>balance := jsSub (balance w) (Finite a)\<rparr>) (wallets d)) u
           (newTransaction tc (Some u) None a WITHDRAWAL (walletCurrency w))
           ''Withdrawal successful'' (jsSub (balance w) (Finite a))
             = Inr (Success msg bal tx, d')"
        by (rule withdraw_Success)
      from flagAndCommit_Inr [OF fc]
      have "wallets d' = saveWallet (w\<lparr>balance := jsSub (balance w) (Finite a)\<rparr>) (wallets d)"
        by auto
      moreover have "jsLe (Finite 0) (jsSub (balance w) (Finite a))"
        using old [OF aw(3)] aw(4) by (simp add: jsSub_nonneg)
      ultimately show ?thesis
        using Pair assms by (simp add: nonNegative_def list_all_saveWallet)
    qed
  qed
  show "nonNegative (snd (transfer f tc now1 now2 u toEmail amt d))"
  proof (cases "transfer f tc now1 now2 u toEmail amt d")
    case (Pair r d')
    show ?thesis
    proof (cases r)
      case (Failure st m)
      with Pair assms show ?thesis by (auto dest: transfer_Failure)
    next
      case (Success msg bal tx)
      from Pair [unfolded Success] obtain e a rc wx wy where "toEmail = Some e" "amt = Some a"
        and aw: "0 < a" "findRecipient e (users d) = Some rc" "uid rc \<noteq> u"
        "findWallet u (wallets d) = Some wx" "\<not> jsLt (balance wx) (Finite a)"
        "findWallet (uid rc) (wallets d) = Some wy"
        and fc: "flagAndCommit f now1 now2 d
           (saveWallet (wy\<lparr>balance := jsAdd (balance wy) (Finite a)\<rparr>)
              (saveWallet (wx\<lparr>balance := jsSub (balance wx) (Finite a)\<rparr>) (wallets d)))
           u (newTransaction tc (Some u) (Some (uid rc)) a TRANSFER (walletCurrency wx))
           ''Transfer successful'' (jsSub (balance wx) (Finite a))
             = Inr (Success msg bal tx, d')"
        by (rule transfer_Success)
      from flagAndCommit_Inr [OF fc]
      have "wallets d' = saveWallet (wy\<lparr>balance := jsAdd (balance wy) (Finite a)\<rparr>)
              (saveWallet (wx\<lparr>balance := jsSub (balance wx) (Finite a)\<rparr>) (wallets d))"
        by auto
      moreover have "jsLe (Finite 0) (jsAdd (balance wy) (Finite a))"
        using old [OF aw(6)] aw(1) by (simp add: jsAdd_nonneg)
      moreover have "jsLe (Finite 0) (jsSub (balance wx) (Finite a))"
        using old [OF aw(4)] aw(5) by (simp add: jsSub_nonneg)
      ultimately show ?thesis
        using Pair assms by (simp add: nonNegative_def list_all_saveWallet)
    qed
  qed
qed

theorem balances_stay_nonnegative_witness:
  "nonNegative exampleDb
   \<and> nonNegative (snd (deposit noFaults 0 0 0 1 (Some 25) exampleDb))
   \<and> nonNegative (snd (withdraw noFaults 0 0 0 1 (Some 2000) exampleDb))
   \<and> nonNegative (snd (transfer noFaults 0 0 0 2 (Some ''a@x'') (Some 50) exampleDb))
   \<and> balanceOf 1 (snd (withdraw noFaults 0 0 0 1 (Some 2000) exampleDb)) = Some (Finite 0)
   \<and> balanceOf 2 (snd (transfer noFaults 0 0 0 2 (Some ''a@x'') (Some 50) exampleDb))
       = Some (Finite 0)"
proof -
  have h: "nonNegative exampleDb"
    by (simp add: nonNegative_def exampleDb_def)
  have b: "balanceOf 1 (snd (withdraw noFaults 0 0 0 1 (Some 2000) exampleDb)) = Some (Finite 0)"
    "balanceOf 2 (snd (transfer noFaults 0 0 0 2 (Some ''a@x'') (Some 50) exampleDb))
       = Some (Finite 0)"
    by (simp_all add: eval_defs)
  show ?thesis
    using h b balances_stay_nonnegative [OF h, of noFaults 0 0 0 1 "Some 25"]
      balances_stay_nonnegative [OF h, of noFaults 0 0 0 1 "Some 2000"]
      balances_stay_nonnegative [OF h, of noFaults 0 0 0 2 "Some 50" "Some ''a@x''"]
    by simp
qed

section \<open>The three rules of the fraud detector\<close>

text \<open>The running sum of \<^verbatim>\<open>reduce\<close> is the sum from the left, so \<open>avgAmount\<close> is
  \<open>jsMean\<close> of the amounts; and whenever \<open>detectFraud\<close> returns, with or without
  failing queries, it returns what \<open>classify\<close> gives.\<close>

lemma foldl_jsSum:
  "foldl (\<lambda>sum t. jsAdd sum (amount t)) acc ts = jsSum acc (map amount ts)"
  by (induction ts arbitrary: acc) simp_all

lemma avgAmount_jsMean: "avgAmount ts = jsMean (map amount ts)"
  by (simp add: avgAmount_def jsMean_def foldl_jsSum)

lemma recentTransactions_touching: "recentTransactions now u ledger = touching now u ledger"
  by (simp add: recentTransactions_def touching_def)

lemma detectFraud_classify:
  "f TransactionFind = None \<Longrightarrow>
     detectFraud f now1 now2 ledger u tx = Inr (classify now1 now2 u ledger tx)"
  by (simp add: detectFraud_def detectFraudRest_def detectFraudOutlier_def classify_def
        velocityRule_def largeWithdrawalRule_def outlierRule_def recentTransfers_def
        recentTransactions_touching avgAmount_jsMean)

lemma detectFraud_Inr_classify:
  assumes "detectFraud f now1 now2 ledger u tx = Inr res"
  shows "res = classify now1 now2 u ledger tx"
proof (cases "f TransactionFind")
  case None
  with assms detectFraud_classify [of f now1 now2 ledger u tx] show ?thesis by simp
next
  case (Some err)
  with assms show ?thesis
    by (auto simp: detectFraud_def detectFraudRest_def detectFraudOutlier_def classify_def
          velocityRule_def largeWithdrawalRule_def split: if_splits)
qed

lemma flagAndCommit_classify:
  assumes "flagAndCommit f now1 now2 d ws u tx0 msg bal = Inr (Success m b t, d')"
    and "isFlagged tx0 = False" and "flagReason tx0 = None"
  shows "transactions d' = transactions d @ [t]
       \<and> flagReason t = classify now1 now2 u (transactions d) (unflagged t)
       \<and> isFlagged t = (flagReason t \<noteq> None)"
proof -
  from flagAndCommit_Inr [OF assms(1)] have
    led: "transactions d' = transactions d @ [t]"
    and t: "detectFraud f now1 now2 (transactions d) u tx0 = Inr None \<and> t = tx0
         \<or> (\<exists>reason. detectFraud f now1 now2 (transactions d) u tx0 = Inr (Some reason)
                \<and> t = setFlag reason tx0)"
    by auto
  have un: "unflagged tx0 = tx0" "\<And>reason. unflagged (setFlag reason tx0) = tx0"
    using assms(2,3) by (simp_all add: unflagged_def setFlag_def)
  from t show ?thesis
  proof
    assume a: "detectFraud f now1 now2 (transactions d) u tx0 = Inr None \<and> t = tx0"
    then have "classify now1 now2 u (transactions d) tx0 = None"
      using detectFraud_Inr_classify [of f now1 now2 "transactions d" u tx0 None] by simp
    then show ?thesis
      using a led un assms(2,3) by simp
  next
    assume "\<exists>reason. detectFraud f now1 now2 (transactions d) u tx0 = Inr (Some reason)
                \<and> t = setFlag reason tx0"
    then obtain reason where a: "detectFraud f now1 now2 (transactions d) u tx0 = Inr (Some reason)"
      and b: "t = setFlag reason tx0"
      by blast
    have "classify now1 now2 u (transactions d) tx0 = Some reason"
      using detectFraud_Inr_classify [OF a] by simp
    then show ?thesis
      using b led un by (simp add: setFlag_def)
  qed
qed

text \<open>
  Claim C8, as stated, fails, because the mean and its triple are computed in doubles.
  The history of user 1 is one deposit of 0.1 and the amount to classify is
  0.30000000000000004, both doubles. The amount exceeds 3 times the arithmetic mean
  (which is 0.3000000000000000166...), but the product \<^verbatim>\<open>avgAmount * 3\<close> is rounded up
  to 0.30000000000000004, the comparison is false and \<open>detectFraud\<close> returns null.
\<close>

theorem outlier_rule_rounding_counterexample:
  "isDouble tenth \<and> isDouble threeTenthsUp
   \<and> 3 * exactMean [tenth] < threeTenthsUp
   \<and> detectFraud noFaults 0 0 [newTransaction 0 None (Some 1) tenth DEPOSIT ''USD''] 1
         (newTransaction 0 None (Some 1) threeTenthsUp DEPOSIT ''USD'') = Inr None"
  by (simp add: isDouble_def exactMean_def tenth_def threeTenthsUp_def eval_defs)

text \<open>
  Claim C8, amended. When its queries do not fail, \<open>detectFraud\<close> returns what
  \<open>classify\<close> returns: the velocity rule, the large-withdrawal rule and the
  statistical-outlier rule are tried in this order and the first reason found is the
  result. The outlier rule takes all transactions of the ledger it is given that have
  the actor as source or as destination and were created in the trailing 30 days; it
  gives no reason when there are none, and otherwise the result is "Transaction amount
  significantly higher than average" exactly when neither earlier rule matched and the
  amount exceeds the double product of 3 and the mean, the mean being the double
  quotient of the left-to-right double sum of the amounts by their number. The handlers
  give it the committed ledger, which does not contain the transaction being classified:
  in every 200 answer of \<open>deposit\<close>, \<open>withdraw\<close> and \<open>transfer\<close> the returned
  transaction is the one appended to the ledger, its reason is what \<open>classify\<close> gives on
  the ledger before the operation, and it is flagged exactly when there is a reason.
\<close>

theorem detectFraud_refines_classify:
  "(f TransactionFind = None \<longrightarrow>
      detectFraud f now1 now2 ledger u tx = Inr (classify now1 now2 u ledger tx))
   \<and> (classify now1 now2 u ledger tx
         = Some ''Transaction amount significantly higher than average''
       \<longleftrightarrow> velocityRule now1 u ledger tx = None \<and> largeWithdrawalRule tx = None
           \<and> touching now2 u ledger \<noteq> []
           \<and> jsLt (jsMul (jsMean (map amount (touching now2 u ledger))) (Finite 3)) (amount tx))
   \<and> (deposit f tc now1 now2 u amt d = (Success msg bal t, d') \<longrightarrow>
        transactions d' = transactions d @ [t]
        \<and> flagReason t = classify now1 now2 u (transactions d) (unflagged t)
        \<and> isFlagged t = (flagReason t \<noteq> None))
   \<and> (withdraw f tc now1 now2 u amt d = (Success msg bal t, d') \<longrightarrow>
        transactions d' = transactions d @ [t]
        \<and> flagReason t = classify now1 now2 u (transactions d) (unflagged t)
        \<and> isFlagged t = (flagReason t \<noteq> None))
   \<and> (transfer f tc now1 now2 u toEmail amt d = (Success msg bal t, d') \<longrightarrow>
        transactions d' = transactions d @ [t]
        \<and> flagReason t = classify now1 now2 u (transactions d) (unflagged t)
        \<and> isFlagged t = (flagReason t \<noteq> None))"
proof (intro conjI impI)
  assume "f TransactionFind = None"
  then show "detectFraud f now1 now2 ledger u tx = Inr (classify now1 now2 u ledger tx)"
    by (rule detectFraud_classify)
next
  show "classify now1 now2 u ledger tx
         = Some ''Transaction amount significantly higher than average''
       \<longleftrightarrow> velocityRule now1 u ledger tx = None \<and> largeWithdrawalRule tx = None
           \<and> touching now2 u ledger \<noteq> []
           \<and> jsLt (jsMul (jsMean (map amount (touching now2 u ledger))) (Finite 3)) (amount tx)"
    by (simp add: classify_def velocityRule_def largeWithdrawalRule_def outlierRule_def)
next
  assume run: "deposit f tc now1 now2 u amt d = (Success msg bal t, d')"
  from run obtain a w where "amt = Some a" "0 < a" "findWallet u (wallets d) = Some w"
    and fc: "flagAndCommit f now1 now2 d
       (saveWallet (w\<lparr>balance := jsAdd (balance w) (Finite a)\<rparr>) (wallets d)) u
       (newTransaction tc None (Some u) a DEPOSIT (walletCurrency w))
       ''Deposit successful'' (jsAdd (balance w) (Finite a)) = Inr (Success msg bal t, d')"
    by (rule deposit_Success)
  from flagAndCommit_classify [OF fc]
  have r: "transactions d' = transactions d @ [t]
        \<and> flagReason t = classify now1 now2 u (transactions d) (unflagged t)
        \<and> isFlagged t = (flagReason t \<noteq> None)"
    by (simp add: newTransaction_def)
  from r show "transactions d' = transactions d @ [t]" by simp
  from r show "flagReason t = classify now1 now2 u (transactions d) (unflagged t)" by simp
  from r show "isFlagged t = (flagReason t \<noteq> None)" by simp
next
  assume run: "withdraw f tc now1 now2 u amt d = (Success msg bal t, d')"
  from run obtain a w where "amt = Some a" "0 < a" "findWallet u (wallets d) = Some w"
    "\<not> jsLt (balance w) (Finite a)"
    and fc: "flagAndCommit f now1 now2 d
       (saveWallet (w\<lparr>balance := jsSub (balance w) (Finite a)\<rparr>) (wallets d)) u
       (newTransaction tc (Some u) None a WITHDRAWAL (walletCurrency w))
       ''Withdrawal successful'' (jsSub (balance w) (Finite a)) = Inr (Success msg bal t, d')"
    by (rule withdraw_Success)
  from flagAndCommit_classify [OF fc]
  have r: "transactions d' = transactions d @ [t]
        \<and> flagReason t = classify now1 now2 u (transactions d) (unflagged t)
        \<and> isFlagged t = (flagReason t \<noteq> None)"
    by (simp add: newTransaction_def)
  from r show "transactions d' = transactions d @ [t]" by simp
  from r show "flagReason t = classify now1 now2 u (transactions d) (unflagged t)" by simp
  from r show "isFlagged t = (flagReason t \<noteq> None)" by simp
next
  assume run: "transfer f tc now1 now2 u toEmail amt d = (Success msg bal t, d')"
  from run obtain e a r wx wy where "toEmail = Some e" "amt = Some a" "0 < a"
    "findRecipient e (users d) = Some r" "uid r \<noteq> u"
    "findWallet u (wallets d) = Some wx" "\<not> jsLt (balance wx) (Finite a)"
    "findWallet (uid r) (wallets d) = Some wy"
    and fc: "flagAndCommit f now1 now2 d
           (saveWallet (wy\<lparr>balance := jsAdd (balance wy) (Finite a)\<rparr>)
              (saveWallet (wx\<lparr>balance := jsSub (balance wx) (Finite a)\<rparr>) (wallets d)))
           u (newTransaction tc (Some u) (Some (uid r)) a TRANSFER (walletCurrency wx))
           ''Transfer successful'' (jsSub (balance wx) (Finite a))
             = Inr (Success msg bal t, d')"
    by (rule transfer_Success)
  from flagAndCommit_classify [OF fc]
  have r: "transactions d' = transactions d @ [t]
        \<and> flagReason t = classify now1 now2 u (transactions d) (unflagged t)
        \<and> isFlagged t = (flagReason t \<noteq> None)"
    by (simp add: newTransaction_def)
  from r show "transactions d' = transactions d @ [t]" by simp
  from r show "flagReason t = classify now1 now2 u (transactions d) (unflagged t)" by simp
  from r show "isFlagged t = (flagReason t \<noteq> None)" by simp
qed

theorem detectFraud_refines_classify_witness:
  "detectFraud noFaults 5 5 [newTransaction 0 None (Some 1) 10 DEPOSIT ''USD''] 1
       (newTransaction 5 None (Some 1) 100 DEPOSIT ''USD'')
     = Inr (Some ''Transaction amount significantly higher than average'')
   \<and> detectFraud noFaults 5 5 [newTransaction 0 None (Some 1) 10 DEPOSIT ''USD''] 1
       (newTransaction 5 None (Some 1) 30 DEPOSIT ''USD'') = Inr None
   \<and> detectFraud noFaults 5 5 [] 1 (newTransaction 5 None (Some 1) 100 DEPOSIT ''USD'') = Inr None
   \<and> (\<exists>m b t d'. deposit noFaults 1 1 1 2 (Some 100) (afterTransfers (Suc 0)) = (Success m b t, d')
         \<and> transactions d' = transactions (afterTransfers (Suc 0)) @ [t]
         \<and> flagReason t = Some ''Transaction amount significantly higher than average'')
   \<and> (\<exists>m b t d'. deposit noFaults 1 1 1 1 (Some 100) exampleDb = (Success m b t, d')
         \<and> transactions d' = [t] \<and> flagReason t = None \<and> \<not> isFlagged t)"
proof -
  have nf: "noFaults TransactionFind = None"
    by (simp add: noFaults_def)
  note t = detectFraud_refines_classify
  have first: "detectFraud noFaults 5 5 [newTransaction 0 None (Some 1) 10 DEPOSIT ''USD''] 1
       (newTransaction 5 None (Some 1) 100 DEPOSIT ''USD'')
     = Inr (Some ''Transaction amount significantly higher than average'')
   \<and> detectFraud noFaults 5 5 [newTransaction 0 None (Some 1) 10 DEPOSIT ''USD''] 1
       (newTransaction 5 None (Some 1) 30 DEPOSIT ''USD'') = Inr None
   \<and> detectFraud noFaults 5 5 [] 1 (newTransaction 5 None (Some 1) 100 DEPOSIT ''USD'') = Inr None"
    using t [of noFaults 5 5 "[newTransaction 0 None (Some 1) 10 DEPOSIT ''USD'']" 1
          "newTransaction 5 None (Some 1) 100 DEPOSIT ''USD''", THEN conjunct1, rule_format,
          OF nf]
      t [of noFaults 5 5 "[newTransaction 0 None (Some 1) 10 DEPOSIT ''USD'']" 1
          "newTransaction 5 None (Some 1) 30 DEPOSIT ''USD''", THEN conjunct1, rule_format,
          OF nf]
      t [of noFaults 5 5 "[]" 1
          "newTransaction 5 None (Some 1) 100 DEPOSIT ''USD''", THEN conjunct1, rule_format,
          OF nf]
    by (simp add: classify_def velocityRule_def largeWithdrawalRule_def outlierRule_def
          touching_def jsMean_def newTransaction_def round_defs)
  obtain r1 d1 where run1: "deposit noFaults 1 1 1 2 (Some 100) (afterTransfers (Suc 0)) = (r1, d1)"
    by (cases "deposit noFaults 1 1 1 2 (Some 100) (afterTransfers (Suc 0))")
  have "\<exists>m b t. r1 = Success m b t
      \<and> flagReason t = Some ''Transaction amount significantly higher than average''"
    using run1 by (simp add: afterTransfers_1) (auto simp: eval_defs)
  then obtain m1 b1 t1 where r1: "r1 = Success m1 b1 t1"
    and f1: "flagReason t1 = Some ''Transaction amount significantly higher than average''"
    by blast
  from t [THEN conjunct2, THEN conjunct2, THEN conjunct1, rule_format, OF run1 [unfolded r1]]
  have l1: "transactions d1 = transactions (afterTransfers (Suc 0)) @ [t1]"
    by simp
  obtain r2 d2 where run2: "deposit noFaults 1 1 1 1 (Some 100) exampleDb = (r2, d2)"
    by (cases "deposit noFaults 1 1 1 1 (Some 100) exampleDb")
  have "\<exists>m b t. r2 = Success m b t \<and> flagReason t = None"
    using run2 by (auto simp: eval_defs)
  then obtain m2 b2 t2 where r2: "r2 = Success m2 b2 t2" and f2: "flagReason t2 = None"
    by blast
  from t [THEN conjunct2, THEN conjunct2, THEN conjunct1, rule_format, OF run2 [unfolded r2]] f2
  have l2: "transactions d2 = [t2] \<and> \<not> isFlagged t2"
    by (simp add: exampleDb_def)
  from first run1 r1 f1 l1 run2 r2 f2 l2 show ?thesis
    by blast
qed

section \<open>Transfers between wallets of different currencies\<close>

text \<open>
  Claim C10, as stated, fails in its last part, because balances are doubles. The sender's
  wallet is in USD and holds 2, the recipient's is in EUR and holds \<open>2\<^sup>5\<^sup>3\<close>. A transfer
  of 1 is answered with 200 and recorded in USD, and the recipient's wallet is what it
  was: its balance has not increased.
\<close>

theorem transfer_recipient_not_credited_counterexample:
  "findWallet 1 (wallets largeDb) = Some \<lparr>userId = 1, balance = Finite 2, walletCurrency = ''USD''\<rparr>
   \<and> findWallet 2 (wallets largeDb)
       = Some \<lparr>userId = 2, balance = Finite 9007199254740992, walletCurrency = ''EUR''\<rparr>
   \<and> fst (transfer noFaults 0 0 0 1 (Some ''b@x'') (Some 1) largeDb)
       = Success ''Transfer successful'' (Finite 1)
           \<lparr>fromUserId = Some 1, toUserId = Some 2, amount = Finite 1, type' = TRANSFER,
            currency = ''USD'', isFlagged = False, flagReason = None, isDeleted = False,
            createdAt = 0\<rparr>
   \<and> findWallet 2 (wallets (snd (transfer noFaults 0 0 0 1 (Some ''b@x'') (Some 1) largeDb)))
       = Some \<lparr>userId = 2, balance = Finite 9007199254740992, walletCurrency = ''EUR''\<rparr>"
  by (simp add: eval_defs)

text \<open>
  Claim C10, amended. \<open>transfer\<close> does not compare the currencies of the two wallets.
  Whenever it answers 200, the currency of the recorded transaction is the currency of
  the sender's wallet and the recipient's wallet is the old one with its balance replaced
  by the double nearest to the old balance plus the amount, which is exactly the old
  balance plus the amount when that sum is a double. And a request that meets the other
  conditions (non-empty email, positive amount, recipient found and different from the
  sender, both wallets present, enough funds) answers 200 with these effects when the
  two currencies differ and no storage operation fails.
\<close>

theorem transfer_ignores_currency:
  "(transfer f tc now1 now2 u toEmail amt d = (Success msg bal tx, d') \<longrightarrow>
      (\<exists>e r a ws wr. toEmail = Some e \<and> amt = Some a \<and> findRecipient e (users d) = Some r
          \<and> findWallet u (wallets d) = Some ws \<and> findWallet (uid r) (wallets d) = Some wr
          \<and> currency tx = walletCurrency ws
          \<and> findWallet (uid r) (wallets d')
              = Some (wr\<lparr>balance := jsAdd (balance wr) (Finite a)\<rparr>)
          \<and> (\<forall>q. balance wr = Finite q \<and> isDouble (q + a) \<longrightarrow>
                findWallet (uid r) (wallets d') = Some (wr\<lparr>balance := Finite (q + a)\<rparr>))))
   \<and> (e \<noteq> [] \<and> 0 < a \<and> findRecipient e (users d) = Some r \<and> uid r \<noteq> u
        \<and> findWallet u (wallets d) = Some ws \<and> jsLe (Finite a) (balance ws)
        \<and> findWallet (uid r) (wallets d) = Some wr
        \<and> walletCurrency wr \<noteq> walletCurrency ws \<longrightarrow>
      (\<exists>t d''. transfer noFaults tc now1 now2 u (Some e) (Some a) d
                  = (Success ''Transfer successful'' (jsSub (balance ws) (Finite a)) t, d'')
          \<and> currency t = walletCurrency ws
          \<and> findWallet (uid r) (wallets d'')
              = Some (wr\<lparr>balance := jsAdd (balance wr) (Finite a)\<rparr>)))"
proof (intro conjI impI)
  assume run: "transfer f tc now1 now2 u toEmail amt d = (Success msg bal tx, d')"
  from run obtain e a r wx wy where
    in1: "toEmail = Some e" "amt = Some a" "0 < a" "findRecipient e (users d) = Some r"
      "uid r \<noteq> u"
    and wx: "findWallet u (wallets d) = Some wx" and le: "\<not> jsLt (balance wx) (Finite a)"
    and wy: "findWallet (uid r) (wallets d) = Some wy"
    and fc: "flagAndCommit f now1 now2 d
           (saveWallet (wy\<lparr>balance := jsAdd (balance wy) (Finite a)\<rparr>)
              (saveWallet (wx\<lparr>balance := jsSub (balance wx) (Finite a)\<rparr>) (wallets d)))
           u (newTransaction tc (Some u) (Some (uid r)) a TRANSFER (walletCurrency wx))
           ''Transfer successful'' (jsSub (balance wx) (Finite a))
             = Inr (Success msg bal tx, d')"
    by (rule transfer_Success)
  let ?tx0 = "newTransaction tc (Some u) (Some (uid r)) a TRANSFER (walletCurrency wx)"
  from flagAndCommit_Inr [OF fc] have
    d': "wallets d' = saveWallet (wy\<lparr>balance := jsAdd (balance wy) (Finite a)\<rparr>)
              (saveWallet (wx\<lparr>balance := jsSub (balance wx) (Finite a)\<rparr>) (wallets d))"
    and tx: "tx = ?tx0 \<or> (\<exists>reason. tx = setFlag reason ?tx0)"
    by auto
  have cur: "currency tx = walletCurrency wx"
    using tx by (auto simp: newTransaction_def setFlag_def)
  have rec: "findWallet (uid r) (wallets d')
               = Some (wy\<lparr>balance := jsAdd (balance wy) (Finite a)\<rparr>)"
    using findWallet_after_transfer(2) [OF wx wy] in1(5) by (simp add: d')
  have exact: "findWallet (uid r) (wallets d') = Some (wy\<lparr>balance := Finite (q + a)\<rparr>)"
    if "balance wy = Finite q \<and> isDouble (q + a)" for q
    using that rec by (simp add: isDouble_def)
  show "\<exists>e r a ws wr. toEmail = Some e \<and> amt = Some a \<and> findRecipient e (users d) = Some r
          \<and> findWallet u (wallets d) = Some ws \<and> findWallet (uid r) (wallets d) = Some wr
          \<and> currency tx = walletCurrency ws
          \<and> findWallet (uid r) (wallets d')
              = Some (wr\<lparr>balance := jsAdd (balance wr) (Finite a)\<rparr>)
          \<and> (\<forall>q. balance wr = Finite q \<and> isDouble (q + a) \<longrightarrow>
                findWallet (uid r) (wallets d') = Some (wr\<lparr>balance := Finite (q + a)\<rparr>))"
    using in1 wx wy cur rec exact by blast
next
  assume pre: "e \<noteq> [] \<and> 0 < a \<and> findRecipient e (users d) = Some r \<and> uid r \<noteq> u
        \<and> findWallet u (wallets d) = Some ws \<and> jsLe (Finite a) (balance ws)
        \<and> findWallet (uid r) (wallets d) = Some wr
        \<and> walletCurrency wr \<noteq> walletCurrency ws"
  then have p: "e \<noteq> []" "0 < a" "findRecipient e (users d) = Some r" "uid r \<noteq> u"
    "findWallet u (wallets d) = Some ws" "\<not> jsLt (balance ws) (Finite a)"
    "findWallet (uid r) (wallets d) = Some wr"
    by (simp_all add: jsLe_not_jsLt)
  let ?tx0 = "newTransaction tc (Some u) (Some (uid r)) a TRANSFER (walletCurrency ws)"
  from transfer_noFaults [OF p, of now1 now2 tc] obtain res t where
    t: "t = (case res of None \<Rightarrow> ?tx0 | Some reason \<Rightarrow> setFlag reason ?tx0)"
    and run: "transfer noFaults tc now1 now2 u (Some e) (Some a) d
               = (Success ''Transfer successful'' (jsSub (balance ws) (Finite a)) t,
                  d\<lparr>wallets := saveWallet (wr\<lparr>balance := jsAdd (balance wr) (Finite a)\<rparr>)
                      (saveWallet (ws\<lparr>balance := jsSub (balance ws) (Finite a)\<rparr>) (wallets d)),
                    transactions := transactions d @ [t]\<rparr>)"
    by blast
  have "currency t = walletCurrency ws"
    using t by (cases res) (simp_all add: newTransaction_def setFlag_def)
  moreover have "findWallet (uid r)
        (saveWallet (wr\<lparr>balance := jsAdd (balance wr) (Finite a)\<rparr>)
           (saveWallet (ws\<lparr>balance := jsSub (balance ws) (Finite a)\<rparr>) (wallets d)))
      = Some (wr\<lparr>balance := jsAdd (balance wr) (Finite a)\<rparr>)"
    using findWallet_after_transfer(2) [OF p(5) p(7)] p(4) by simp
  ultimately show "\<exists>t d''. transfer noFaults tc now1 now2 u (Some e) (Some a) d
                  = (Success ''Transfer successful'' (jsSub (balance ws) (Finite a)) t, d'')
          \<and> currency t = walletCurrency ws
          \<and> findWallet (uid r) (wallets d'')
              = Some (wr\<lparr>balance := jsAdd (balance wr) (Finite a)\<rparr>)"
    using run by simp
qed

theorem transfer_ignores_currency_witness:
  "\<exists>t d''. transfer noFaults 0 0 0 1 (Some ''b@x'') (Some 10) exampleDb
              = (Success ''Transfer successful'' (Finite 1990) t, d'')
      \<and> currency t = ''USD''
      \<and> findWallet 2 (wallets exampleDb)
          = Some \<lparr>userId = 2, balance = Finite 50, walletCurrency = ''EUR''\<rparr>
      \<and> findWallet 2 (wallets d'')
          = Some \<lparr>userId = 2, balance = Finite 60, walletCurrency = ''EUR''\<rparr>"
proof -
  let ?r = "\<lparr>uid = 2, email = ''b@x'', userIsDeleted = False\<rparr>"
  let ?ws = "\<lparr>userId = 1, balance = Finite 2000, walletCurrency = ''USD''\<rparr>"
  let ?wr = "\<lparr>userId = 2, balance = Finite 50, walletCurrency = ''EUR''\<rparr>"
  have pre: "''b@x'' \<noteq> [] \<and> (0::real) < 10
        \<and> findRecipient ''b@x'' (users exampleDb) = Some ?r \<and> uid ?r \<noteq> 1
        \<and> findWallet 1 (wallets exampleDb) = Some ?ws \<and> jsLe (Finite 10) (balance ?ws)
        \<and> findWallet (uid ?r) (wallets exampleDb) = Some ?wr
        \<and> walletCurrency ?wr \<noteq> walletCurrency ?ws"
    by (simp add: findRecipient_def findWallet_def exampleDb_def)
  have ar: "jsSub (balance ?ws) (Finite 10) = Finite 1990"
    "jsAdd (balance ?wr) (Finite 10) = Finite 60"
    using isDouble_examples by (simp_all add: jsSub_Finite isDouble_def)
  from transfer_ignores_currency [THEN conjunct2, rule_format, OF pre, of 0 0 0]
  show ?thesis
    using pre ar by simp
qed

section \<open>Order of validation in transfers\<close>

text \<open>
  Claim C6, as stated, fails for an actor without a wallet: user 3 of the example data
  has none, and a transfer by this user is answered with 400 "Insufficient funds", the
  message of the funds check, not with a distinct wallet-not-found error.
\<close>

theorem transfer_without_wallet_counterexample:
  "findWallet 3 (wallets exampleDb) = None
   \<and> transfer noFaults 0 0 0 3 (Some ''b@x'') (Some 10) exampleDb
       = (Failure 400 ''Insufficient funds'', exampleDb)
   \<and> fst (transfer noFaults 0 0 0 3 (Some ''b@x'') (Some 10) exampleDb)
       \<noteq> Failure 404 ''Wallet not found''"
  by (simp add: eval_defs)

text \<open>
  Claim C6, amended. \<open>transfer\<close> validates in a fixed order. A missing, zero or
  negative amount is rejected first (400, whatever the recipient, the wallets and the
  storage do). Otherwise, with no storage failure: an email that no non-deleted user has
  gives 404 "Recipient not found", whatever the funds are; a recipient equal to the
  sender gives 400 "Cannot transfer to your own account", whatever the funds are; then a
  sender without a wallet and a sender whose balance is below the amount both give 400
  "Insufficient funds". In every failure answer the database is returned unchanged.
\<close>

theorem transfer_validation_order:
  "(invalidAmount amt \<longrightarrow>
      transfer f tc now1 now2 u toEmail amt d
        = (Failure 400 ''Valid recipient email and amount are required'', d))
   \<and> (e \<noteq> [] \<and> 0 < a \<and> (\<forall>x \<in> set (users d). email x = e \<longrightarrow> userIsDeleted x) \<longrightarrow>
      transfer noFaults tc now1 now2 u (Some e) (Some a) d
        = (Failure 404 ''Recipient not found'', d))
   \<and> (e \<noteq> [] \<and> 0 < a \<and> findRecipient e (users d) = Some r \<and> uid r = u \<longrightarrow>
      transfer noFaults tc now1 now2 u (Some e) (Some a) d
        = (Failure 400 ''Cannot transfer to your own account'', d))
   \<and> (e \<noteq> [] \<and> 0 < a \<and> findRecipient e (users d) = Some r \<and> uid r \<noteq> u
        \<and> findWallet u (wallets d) = None \<longrightarrow>
      transfer noFaults tc now1 now2 u (Some e) (Some a) d
        = (Failure 400 ''Insufficient funds'', d))
   \<and> (e \<noteq> [] \<and> 0 < a \<and> findRecipient e (users d) = Some r \<and> uid r \<noteq> u
        \<and> findWallet u (wallets d) = Some w \<and> jsLt (balance w) (Finite a) \<longrightarrow>
      transfer noFaults tc now1 now2 u (Some e) (Some a) d
        = (Failure 400 ''Insufficient funds'', d))
   \<and> (transfer f tc now1 now2 u toEmail amt d = (Failure st m, d') \<longrightarrow> d' = d)"
proof (intro conjI impI)
  assume "invalidAmount amt"
  then show "transfer f tc now1 now2 u toEmail amt d
        = (Failure 400 ''Valid recipient email and amount are required'', d)"
    by (auto simp: invalidAmount_def transfer_def transferTry_def split: option.splits)
next
  assume "e \<noteq> [] \<and> 0 < a \<and> (\<forall>x \<in> set (users d). email x = e \<longrightarrow> userIsDeleted x)"
  moreover from this have "findRecipient e (users d) = None"
    by (auto simp: findRecipient_def find_None_iff)
  ultimately show "transfer noFaults tc now1 now2 u (Some e) (Some a) d
        = (Failure 404 ''Recipient not found'', d)"
    by (simp add: transfer_def transferTry_def transferRecipient_def noFaults_def)
next
  assume "e \<noteq> [] \<and> 0 < a \<and> findRecipient e (users d) = Some r \<and> uid r = u"
  then show "transfer noFaults tc now1 now2 u (Some e) (Some a) d
        = (Failure 400 ''Cannot transfer to your own account'', d)"
    by (simp add: transfer_def transferTry_def transferRecipient_def noFaults_def)
next
  assume "e \<noteq> [] \<and> 0 < a \<and> findRecipient e (users d) = Some r \<and> uid r \<noteq> u
        \<and> findWallet u (wallets d) = None"
  then show "transfer noFaults tc now1 now2 u (Some e) (Some a) d
        = (Failure 400 ''Insufficient funds'', d)"
    by (simp add: transfer_def transferTry_def transferRecipient_def noFaults_def)
next
  assume "e \<noteq> [] \<and> 0 < a \<and> findRecipient e (users d) = Some r \<and> uid r \<noteq> u
        \<and> findWallet u (wallets d) = Some w \<and> jsLt (balance w) (Finite a)"
  then show "transfer noFaults tc now1 now2 u (Some e) (Some a) d
        = (Failure 400 ''Insufficient funds'', d)"
    by (simp add: transfer_def transferTry_def transferRecipient_def noFaults_def)
next
  assume "transfer f tc now1 now2 u toEmail amt d = (Failure st m, d')"
  then show "d' = d"
    by (rule transfer_Failure)
qed

theorem transfer_validation_order_witness:
  "transfer noFaults 0 0 0 1 (Some ''nobody@x'') (Some 0) exampleDb
     = (Failure 400 ''Valid recipient email and amount are required'', exampleDb)
   \<and> transfer noFaults 0 0 0 1 (Some ''nobody@x'') (Some 5000) exampleDb
     = (Failure 404 ''Recipient not found'', exampleDb)
   \<and> transfer noFaults 0 0 0 1 (Some ''a@x'') (Some 5000) exampleDb
     = (Failure 400 ''Cannot transfer to your own account'', exampleDb)
   \<and> transfer noFaults 0 0 0 3 (Some ''b@x'') (Some 10) exampleDb
     = (Failure 400 ''Insufficient funds'', exampleDb)
   \<and> transfer noFaults 0 0 0 1 (Some ''b@x'') (Some 5000) exampleDb
     = (Failure 400 ''Insufficient funds'', exampleDb)"
proof -
  have c1: "invalidAmount (Some 0)"
    by (simp add: invalidAmount_def)
  have c2: "''nobody@x'' \<noteq> [] \<and> (0::real) < 5000
      \<and> (\<forall>x \<in> set (users exampleDb). email x = ''nobody@x'' \<longrightarrow> userIsDeleted x)"
    by (simp add: exampleDb_def)
  have c3: "''a@x'' \<noteq> [] \<and> (0::real) < 5000
      \<and> findRecipient ''a@x'' (users exampleDb) = Some \<lparr>uid = 1, email = ''a@x'', userIsDeleted = False\<rparr>
      \<and> uid \<lparr>uid = 1, email = ''a@x'', userIsDeleted = False\<rparr> = 1"
    by (simp add: exampleDb_def findRecipient_def)
  have c4: "''b@x'' \<noteq> [] \<and> (0::real) < 10
      \<and> findRecipient ''b@x'' (users exampleDb) = Some \<lparr>uid = 2, email = ''b@x'', userIsDeleted = False\<rparr>
      \<and> uid \<lparr>uid = 2, email = ''b@x'', userIsDeleted = False\<rparr> \<noteq> 3
      \<and> findWallet 3 (wallets exampleDb) = None"
    by (simp add: exampleDb_def findRecipient_def findWallet_def)
  have c5: "''b@x'' \<noteq> [] \<and> (0::real) < 5000
      \<and> findRecipient ''b@x'' (users exampleDb) = Some \<lparr>uid = 2, email = ''b@x'', userIsDeleted = False\<rparr>
      \<and> uid \<lparr>uid = 2, email = ''b@x'', userIsDeleted = False\<rparr> \<noteq> 1
      \<and> findWallet 1 (wallets exampleDb) = Some \<lparr>userId = 1, balance = Finite 2000, walletCurrency = ''USD''\<rparr>
      \<and> jsLt (balance \<lparr>userId = 1, balance = Finite 2000, walletCurrency = ''USD''\<rparr>) (Finite 5000)"
    by (simp add: exampleDb_def findRecipient_def findWallet_def)
  note t = transfer_validation_order
  from t [THEN conjunct1, rule_format, OF c1]
    t [THEN conjunct2, THEN conjunct1, rule_format, OF c2]
    t [THEN conjunct2, THEN conjunct2, THEN conjunct1, rule_format, OF c3]
    t [THEN conjunct2, THEN conjunct2, THEN conjunct2, THEN conjunct1, rule_format, OF c4]
    t [THEN conjunct2, THEN conjunct2, THEN conjunct2, THEN conjunct2, THEN conjunct1,
       rule_format, OF c5]
  show ?thesis
    by blast
qed

section \<open>The flag write is part of the session\<close>

text \<open>
  Claim C4, as stated, fails: a withdrawal of 1500 from the wallet holding 2000 is
  classified "Large withdrawal"; when the flag write then throws, the handler answers
  500 with the error's message and nothing is committed, the balance is still 2000 and
  the ledger still empty.
\<close>

theorem flag_write_fault_reported_counterexample:
  "detectFraud (flagWriteFails ''write failed'') 0 0 (transactions exampleDb) 1
       (newTransaction 0 (Some 1) None 1500 WITHDRAWAL ''USD'') = Inr (Some ''Large withdrawal'')
   \<and> withdraw (flagWriteFails ''write failed'') 0 0 0 1 (Some 1500) exampleDb
       = (Failure 500 ''write failed'', exampleDb)
   \<and> balanceOf 1 exampleDb = Some (Finite 2000) \<and> transactions exampleDb = []"
  by (simp add: eval_defs flagWriteFails_def)

text \<open>
  Claim C4, amended. In all three handlers the classification and the flag write happen
  inside the session, before \<^verbatim>\<open>commitTransaction\<close>. When a request passes validation,
  \<open>detectFraud\<close> gives a reason and the flag write (and only it) fails, the handler
  answers 500 with the message of that error and the database, balances and ledger
  included, is returned unchanged: the failure of the flag write is reported as a
  failure of the operation, and no transaction is committed without its flag.
\<close>

theorem flag_write_fault_aborts:
  "(0 < a \<and> findWallet u (wallets d) = Some w
      \<and> detectFraud (flagWriteFails err) now1 now2 (transactions d) u
           (newTransaction tc None (Some u) a DEPOSIT (walletCurrency w)) = Inr (Some reason)
     \<longrightarrow> deposit (flagWriteFails err) tc now1 now2 u (Some a) d = (Failure 500 err, d))
   \<and> (0 < a \<and> findWallet u (wallets d) = Some w \<and> jsLe (Finite a) (balance w)
      \<and> detectFraud (flagWriteFails err) now1 now2 (transactions d) u
           (newTransaction tc (Some u) None a WITHDRAWAL (walletCurrency w)) = Inr (Some reason)
     \<longrightarrow> withdraw (flagWriteFails err) tc now1 now2 u (Some a) d = (Failure 500 err, d))
   \<and> (e \<noteq> [] \<and> 0 < a \<and> findRecipient e (users d) = Some r \<and> uid r \<noteq> u
      \<and> findWallet u (wallets d) = Some w \<and> jsLe (Finite a) (balance w)
      \<and> findWallet (uid r) (wallets d) = Some wr
      \<and> detectFraud (flagWriteFails err) now1 now2 (transactions d) u
           (newTransaction tc (Some u) (Some (uid r)) a TRANSFER (walletCurrency w))
          = Inr (Some reason)
     \<longrightarrow> transfer (flagWriteFails err) tc now1 now2 u (Some e) (Some a) d = (Failure 500 err, d))"
  by (auto simp add: deposit_def depositTry_def withdraw_def withdrawTry_def transfer_def
        transferTry_def transferRecipient_def transferWallets_def flagAndCommit_def
        flagWriteFails_def noFaults_def dest: jsLe_not_jsLt)

theorem flag_write_fault_aborts_witness:
  "deposit (flagWriteFails ''write failed'') 1 1 1 2 (Some 100) (afterTransfers (Suc 0))
     = (Failure 500 ''write failed'', afterTransfers (Suc 0))
   \<and> withdraw (flagWriteFails ''write failed'') 1 1 1 1 (Some 1500) (afterTransfers (Suc 0))
     = (Failure 500 ''write failed'', afterTransfers (Suc 0))
   \<and> transfer (flagWriteFails ''write failed'') 1 1 1 1 (Some ''b@x'') (Some 100)
       (afterTransfers (Suc 0))
     = (Failure 500 ''write failed'', afterTransfers (Suc 0))"
proof -
  let ?d = "afterTransfers (Suc 0)"
  let ?w1 = "\<lparr>userId = 1, balance = Finite 1990, walletCurrency = ''USD''\<rparr>"
  let ?w2 = "\<lparr>userId = 2, balance = Finite 60, walletCurrency = ''EUR''\<rparr>"
  let ?r = "\<lparr>uid = 2, email = ''b@x'', userIsDeleted = False\<rparr>"
  let ?o = "''Transaction amount significantly higher than average''"
  have c1: "(0::real) < 100 \<and> findWallet 2 (wallets ?d) = Some ?w2
      \<and> detectFraud (flagWriteFails ''write failed'') 1 1 (transactions ?d) 2
           (newTransaction 1 None (Some 2) 100 DEPOSIT (walletCurrency ?w2)) = Inr (Some ?o)"
    by (simp add: afterTransfers_1 eval_defs flagWriteFails_def)
  have c2: "(0::real) < 1500 \<and> findWallet 1 (wallets ?d) = Some ?w1 \<and> jsLe (Finite 1500) (balance ?w1)
      \<and> detectFraud (flagWriteFails ''write failed'') 1 1 (transactions ?d) 1
           (newTransaction 1 (Some 1) None 1500 WITHDRAWAL (walletCurrency ?w1))
          = Inr (Some ''Large withdrawal'')"
    by (simp add: afterTransfers_1 eval_defs flagWriteFails_def)
  have c3: "''b@x'' \<noteq> [] \<and> (0::real) < 100 \<and> findRecipient ''b@x'' (users ?d) = Some ?r
      \<and> uid ?r \<noteq> 1 \<and> findWallet 1 (wallets ?d) = Some ?w1 \<and> jsLe (Finite 100) (balance ?w1)
      \<and> findWallet (uid ?r) (wallets ?d) = Some ?w2
      \<and> detectFraud (flagWriteFails ''write failed'') 1 1 (transactions ?d) 1
           (newTransaction 1 (Some 1) (Some (uid ?r)) 100 TRANSFER (walletCurrency ?w1))
          = Inr (Some ?o)"
    by (simp add: afterTransfers_1 eval_defs flagWriteFails_def)
  note t = flag_write_fault_aborts
  from t [THEN conjunct1, rule_format, OF c1]
    t [THEN conjunct2, THEN conjunct1, rule_format, OF c2]
    t [THEN conjunct2, THEN conjunct2, rule_format, OF c3]
  show ?thesis
    by blast
qed

section \<open>The velocity rule\<close>

text \<open>
  Claim C5, as stated, fails: after four transfers from user 1 within five milliseconds,
  the fifth transfer is answered with an unflagged transaction. The query of the
  velocity rule reads the committed ledger, which holds the four earlier transfers and
  not the one being processed.
\<close>

theorem fifth_transfer_unflagged_counterexample:
  "transactions (afterTransfers 4)
     = [newTransaction 0 (Some 1) (Some 2) 10 TRANSFER ''USD'',
        newTransaction 1 (Some 1) (Some 2) 10 TRANSFER ''USD'',
        newTransaction 2 (Some 1) (Some 2) 10 TRANSFER ''USD'',
        newTransaction 3 (Some 1) (Some 2) 10 TRANSFER ''USD'']
   \<and> fst (transfer noFaults 4 4 4 1 (Some ''b@x'') (Some 10) (afterTransfers 4))
       = Success ''Transfer successful'' (Finite 1950)
           \<lparr>fromUserId = Some 1, toUserId = Some 2, amount = Finite 10, type' = TRANSFER,
            currency = ''USD'', isFlagged = False, flagReason = None, isDeleted = False,
            createdAt = 4\<rparr>"
  by (simp add: afterTransfers_4) (simp add: eval_defs)

text \<open>
  Claim C5, amended. The velocity rule counts the TRANSFER transactions of the committed
  ledger that have the actor as source and a \<^verbatim>\<open>createdAt\<close> in the trailing hour; the
  transaction being processed is appended by the commit and is not among them. For
  every 200 answer of \<open>transfer\<close>: if that count is 5 or more the returned transaction
  is flagged with "Multiple transfers in a short period"; if it is below 5 the
  transaction does not carry that reason, and is unflagged when the outlier rule does
  not fire either; and the committed transfer is counted by later queries whose window
  contains its creation time. So in a sequence of transfers from one account within one
  hour the first five are not flagged by this rule and the sixth is.
\<close>

theorem velocity_counts_committed_transfers:
  assumes "transfer f tc now1 now2 u toEmail amt d = (Success msg bal tx, d')"
  shows "transactions d' = transactions d @ [tx]
       \<and> recentTransfers now1 u (transactions d)
           = [t \<leftarrow> transactions d. fromUserId t = Some u \<and> type' t = TRANSFER
                                    \<and> now1 - 3600000 \<le> createdAt t]
       \<and> (5 \<le> length (recentTransfers now1 u (transactions d)) \<longrightarrow>
            isFlagged tx \<and> flagReason tx = Some ''Multiple transfers in a short period'')
       \<and> (length (recentTransfers now1 u (transactions d)) < 5 \<longrightarrow>
            flagReason tx \<noteq> Some ''Multiple transfers in a short period'')
       \<and> (length (recentTransfers now1 u (transactions d)) < 5
            \<and> \<not> (recentTransactions now2 u (transactions d) \<noteq> []
                  \<and> jsLt (jsMul (avgAmount (recentTransactions now2 u (transactions d))) (Finite 3))
                       (amount tx)) \<longrightarrow>
            \<not> isFlagged tx \<and> flagReason tx = None)
       \<and> (\<forall>now. now - 3600000 \<le> tc \<longrightarrow>
            length (recentTransfers now u (transactions d'))
              = Suc (length (recentTransfers now u (transactions d))))"
proof -
  from assms obtain e a r wx wy where
    in1: "toEmail = Some e" "amt = Some a" "0 < a" "findRecipient e (users d) = Some r"
      "uid r \<noteq> u"
    and wx: "findWallet u (wallets d) = Some wx" and le: "\<not> jsLt (balance wx) (Finite a)"
    and wy: "findWallet (uid r) (wallets d) = Some wy"
    and fc: "flagAndCommit f now1 now2 d
           (saveWallet (wy\<lparr>balance := jsAdd (balance wy) (Finite a)\<rparr>)
              (saveWallet (wx\<lparr>balance := jsSub (balance wx) (Finite a)\<rparr>) (wallets d)))
           u (newTransaction tc (Some u) (Some (uid r)) a TRANSFER (walletCurrency wx))
           ''Transfer successful'' (jsSub (balance wx) (Finite a)) = Inr (Success msg bal tx, d')"
    by (rule transfer_Success)
  let ?tx0 = "newTransaction tc (Some u) (Some (uid r)) a TRANSFER (walletCurrency wx)"
  let ?n = "length (recentTransfers now1 u (transactions d))"
  let ?out = "recentTransactions now2 u (transactions d) \<noteq> []
                  \<and> jsLt (jsMul (avgAmount (recentTransactions now2 u (transactions d))) (Finite 3))
                       (amount tx)"
  from flagAndCommit_Inr [OF fc] have
    led: "transactions d' = transactions d @ [tx]"
    and tx: "detectFraud f now1 now2 (transactions d) u ?tx0 = Inr None \<and> tx = ?tx0
         \<or> (\<exists>reason. detectFraud f now1 now2 (transactions d) u ?tx0 = Inr (Some reason)
                \<and> tx = setFlag reason ?tx0)"
    by auto
  have ty: "type' ?tx0 = TRANSFER" "amount ?tx0 = Finite a" "isFlagged ?tx0 = False"
    "flagReason ?tx0 = None"
    by (simp_all add: newTransaction_def)
  have am: "amount tx = Finite a"
    using tx ty by (auto simp: setFlag_def)
  have hi: "isFlagged tx \<and> flagReason tx = Some ''Multiple transfers in a short period''"
    if "5 \<le> ?n"
    using tx that ty
    by (auto simp: detectFraud_def setFlag_def split: option.splits)
  have lo: "flagReason tx \<noteq> Some ''Multiple transfers in a short period''" if "?n < 5"
    using tx that ty
    by (auto simp: detectFraud_def detectFraudRest_def detectFraudOutlier_def setFlag_def Let_def
             split: option.splits if_splits)
  have no: "\<not> isFlagged tx \<and> flagReason tx = None" if "?n < 5" and "\<not> ?out"
    using tx that ty am
    by (auto simp: detectFraud_def detectFraudRest_def detectFraudOutlier_def setFlag_def Let_def
             split: option.splits if_splits)
  have fields: "fromUserId tx = Some u" "type' tx = TRANSFER" "createdAt tx = tc"
    using tx by (auto simp: newTransaction_def setFlag_def)
  have nxt: "length (recentTransfers now u (transactions d'))
              = Suc (length (recentTransfers now u (transactions d)))"
    if "now - 3600000 \<le> tc" for now
    using that fields by (simp add: led recentTransfers_snoc)
  have flt: "recentTransfers now1 u (transactions d)
           = [t \<leftarrow> transactions d. fromUserId t = Some u \<and> type' t = TRANSFER
                                    \<and> now1 - 3600000 \<le> createdAt t]"
    by (simp add: recentTransfers_def)
  show ?thesis
    using led flt hi lo no nxt by blast
qed

theorem velocity_counts_committed_transfers_witness:
  "length (recentTransfers 5 1 (transactions (afterTransfers 5))) = 5
   \<and> (\<exists>tx d'. transfer noFaults 5 5 5 1 (Some ''b@x'') (Some 10) (afterTransfers 5)
                = (Success ''Transfer successful'' (Finite 1940) tx, d')
            \<and> transactions d' = transactions (afterTransfers 5) @ [tx]
            \<and> isFlagged tx \<and> flagReason tx = Some ''Multiple transfers in a short period'')"
proof -
  have n: "length (recentTransfers 5 1 (transactions (afterTransfers 5))) = 5"
    by (simp add: afterTransfers_5) (simp add: eval_defs)
  obtain r d' where run: "transfer noFaults 5 5 5 1 (Some ''b@x'') (Some 10) (afterTransfers 5) = (r, d')"
    by (cases "transfer noFaults 5 5 5 1 (Some ''b@x'') (Some 10) (afterTransfers 5)")
  have "\<exists>tx. r = Success ''Transfer successful'' (Finite 1940) tx"
    using run by (simp add: afterTransfers_5) (auto simp: eval_defs)
  then obtain tx where tx: "r = Success ''Transfer successful'' (Finite 1940) tx" by blast
  from velocity_counts_committed_transfers [OF run [unfolded tx]] n
  have "transactions d' = transactions (afterTransfers 5) @ [tx]
            \<and> isFlagged tx \<and> flagReason tx = Some ''Multiple transfers in a short period''"
    by simp
  with n run tx show ?thesis
    by blast
qed

end
